theory Spec2Isabelle
  imports Main "HOL-Library.Word"
begin

unbundle bit_operations_syntax

section \<open>Basic types\<close>

text \<open>
  The remote-device server of the ANARI SDK (\<^verbatim>\<open>libs/remote_device/Server.cpp\<close>) and the
  parameter store of helium (\<^verbatim>\<open>src/helium/utility/ParameterizedObject.cpp\<close>).

  \<^verbatim>\<open>Handle\<close> is \<^verbatim>\<open>uint64_t\<close>. \<^verbatim>\<open>ANARIDevice\<close>, \<^verbatim>\<open>ANARIObject\<close>, \<^verbatim>\<open>ANARIArray\<close> and
  \<^verbatim>\<open>ANARIFrame\<close> are opaque pointers; the server itself relies on
  \<^verbatim>\<open>sizeof(ANARIObject)==sizeof(uint64_t)\<close>, so a pointer is a 64-bit word and
  \<^verbatim>\<open>nullptr\<close> is 0. \<^verbatim>\<open>size_t\<close> is 64 bits wide as well.
\<close>

type_synonym byte = "8 word"
type_synonym Handle = "64 word"
type_synonym ptr = "64 word"

abbreviation nullptr :: ptr where
  "nullptr \<equiv> 0"

text \<open>
  The \<^verbatim>\<open>ANARIDataType\<close> tags that the two source files name. Their numbering lives in the
  ANARI headers; every other tag is \<open>ANARI_OTHER\<close> with its wire value.
\<close>

datatype ANARIDataType =
    ANARI_UNKNOWN | ANARI_STRING | ANARI_STRING_LIST | ANARI_DATA_TYPE_LIST
  | ANARI_PARAMETER_LIST | ANARI_DEVICE
  | ANARI_ARRAY1D | ANARI_ARRAY2D | ANARI_ARRAY3D
  | ANARI_LIGHT | ANARI_CAMERA | ANARI_GEOMETRY | ANARI_SPATIAL_FIELD | ANARI_SURFACE
  | ANARI_VOLUME | ANARI_MATERIAL | ANARI_SAMPLER | ANARI_GROUP | ANARI_INSTANCE
  | ANARI_WORLD | ANARI_FRAME | ANARI_RENDERER
  | ANARI_FLOAT32 | ANARI_UFIXED8_RGBA_SRGB
  | ANARI_OTHER "32 word"

text \<open>
  What the model does where C++ leaves the behaviour undefined or where the wire codec
  reports an error: an index past the end of a \<^verbatim>\<open>std::vector\<close> is \<open>OutOfRange\<close>, a
  read past the end of a \<^verbatim>\<open>Buffer\<close> is \<open>ReadPastEnd\<close>.
\<close>

datatype fault = OutOfRange | ReadPastEnd

section \<open>Resource manager\<close>

text \<open>\<^verbatim>\<open>struct ServerObject { device{nullptr}; handle{nullptr}; type{ANARI_UNKNOWN}; }\<close>\<close>

record ServerObject =
  so_device :: ptr
  so_handle :: ptr
  so_type :: ANARIDataType

definition ServerObject_default :: ServerObject where
  "ServerObject_default = \<lparr>so_device = nullptr, so_handle = nullptr, so_type = ANARI_UNKNOWN\<rparr>"

text \<open>
  Modelled from the spec: \<^verbatim>\<open>ArrayInfo\<close> (\<^verbatim>\<open>ArrayInfo.h\<close> is not among the sources):
  \<^verbatim>\<open>{ array-rank tag, element type tag, counts (n1, n2, n3) }\<close>, zero-initialised on a miss,
  and \<^verbatim>\<open>sizeInBytes = elementSize(elementType) * n1 * max(1,n2) * max(1,n3)\<close>, computed in
  \<^verbatim>\<open>size_t\<close>. The element size \<^verbatim>\<open>anari::sizeOf\<close> is a parameter.
\<close>

record ArrayInfo =
  ai_type :: ANARIDataType
  elementType :: ANARIDataType
  numItems1 :: "64 word"
  numItems2 :: "64 word"
  numItems3 :: "64 word"

definition ArrayInfo_default :: ArrayInfo where
  "ArrayInfo_default =
     \<lparr>ai_type = ANARI_UNKNOWN, elementType = ANARI_UNKNOWN,
      numItems1 = 0, numItems2 = 0, numItems3 = 0\<rparr>"

definition getSizeInBytes :: "(ANARIDataType \<Rightarrow> 64 word) \<Rightarrow> ArrayInfo \<Rightarrow> 64 word" where
  "getSizeInBytes sizeOf info =
     sizeOf (elementType info) * numItems1 info * max 1 (numItems2 info) * max 1 (numItems3 info)"

record ResourceManager =
  nextDeviceHandle :: Handle
  anariDevices :: "ptr list"
  serverObjects :: "ServerObject list list"
  serverArrays :: "ArrayInfo list list"

text \<open>A freshly constructed \<^verbatim>\<open>ResourceManager\<close>: \<^verbatim>\<open>nextDeviceHandle = 1\<close>, empty vectors.\<close>

definition ResourceManager_init :: ResourceManager where
  "ResourceManager_init =
     \<lparr>nextDeviceHandle = 1, anariDevices = [], serverObjects = [], serverArrays = []\<rparr>"

text \<open>\<^verbatim>\<open>std::vector::resize(n)\<close>: truncate, or pad with value-initialised elements.\<close>

definition resize :: "'a list \<Rightarrow> nat \<Rightarrow> 'a \<Rightarrow> 'a list" where
  "resize xs n d = take n xs @ replicate (n - length xs) d"

text \<open>
  \<^verbatim>\<open>Handle handle = nextDeviceHandle++;
  size_t newNumHandles = std::max(anariDevices.size(), (size_t)handle + 1);
  anariDevices.resize(newNumHandles); serverObjects.resize(...); serverArrays.resize(...);
  anariDevices[handle] = dev; return handle;\<close>
  The addition \<^verbatim>\<open>(size_t)handle + 1\<close> wraps at \<open>2^64\<close>.
\<close>

definition registerDevice ::
  "ptr \<Rightarrow> ResourceManager \<Rightarrow> fault + (Handle \<times> ResourceManager)" where
  "registerDevice dev rm =
     (let h = nextDeviceHandle rm;
          newNumHandles = max (length (anariDevices rm)) (unat (h + 1));
          devs = resize (anariDevices rm) newNumHandles nullptr
      in if unat h < length devs
         then Inr (h, rm\<lparr>nextDeviceHandle := h + 1,
                         anariDevices := devs[unat h := dev],
                         serverObjects := resize (serverObjects rm) newNumHandles [],
                         serverArrays := resize (serverArrays rm) newNumHandles []\<rparr>)
         else Inl OutOfRange)"

text \<open>
  \<^verbatim>\<open>size_t newNumHandles = std::max(serverObjects[deviceID].size(), (size_t)objectID + 1);
  serverObjects[deviceID].resize(newNumHandles);
  serverObjects[deviceID][objectID] = {anariDevices[deviceID], anariObj, type};\<close>
  None of the three subscripts is checked.
\<close>

definition registerObject ::
  "Handle \<Rightarrow> Handle \<Rightarrow> ptr \<Rightarrow> ANARIDataType \<Rightarrow> ResourceManager \<Rightarrow> fault + ResourceManager" where
  "registerObject deviceID objectID anariObj ty rm =
     (if unat deviceID < length (serverObjects rm) \<and> unat deviceID < length (anariDevices rm)
      then
        let objs = serverObjects rm ! unat deviceID;
            newNumHandles = max (length objs) (unat (objectID + 1));
            objs' = resize objs newNumHandles ServerObject_default
        in if unat objectID < length objs'
           then Inr (rm\<lparr>serverObjects := (serverObjects rm)[unat deviceID :=
                       objs'[unat objectID :=
                         \<lparr>so_device = anariDevices rm ! unat deviceID,
                          so_handle = anariObj, so_type = ty\<rparr>]]\<rparr>)
           else Inl OutOfRange
      else Inl OutOfRange)"

text \<open>\<^verbatim>\<open>registerArray\<close>: \<^verbatim>\<open>registerObject(deviceID, objectID, anariObj, info.type)\<close>, then the
  same growth and store on \<^verbatim>\<open>serverArrays[deviceID]\<close>.\<close>

definition registerArray ::
  "Handle \<Rightarrow> Handle \<Rightarrow> ptr \<Rightarrow> ArrayInfo \<Rightarrow> ResourceManager \<Rightarrow> fault + ResourceManager" where
  "registerArray deviceID objectID anariObj info rm =
     (case registerObject deviceID objectID anariObj (ai_type info) rm of
        Inl e \<Rightarrow> Inl e
      | Inr rm1 \<Rightarrow>
          if unat deviceID < length (serverArrays rm1)
          then
            let arrs = serverArrays rm1 ! unat deviceID;
                newNumHandles = max (length arrs) (unat (objectID + 1));
                arrs' = resize arrs newNumHandles ArrayInfo_default
            in if unat objectID < length arrs'
               then Inr (rm1\<lparr>serverArrays := (serverArrays rm1)[unat deviceID :=
                           arrs'[unat objectID := info]]\<rparr>)
               else Inl OutOfRange
          else Inl OutOfRange)"

definition getDevice :: "ResourceManager \<Rightarrow> Handle \<Rightarrow> ptr" where
  "getDevice rm deviceID =
     (if unat deviceID \<ge> length (anariDevices rm) then nullptr
      else anariDevices rm ! unat deviceID)"

definition getServerObject :: "ResourceManager \<Rightarrow> Handle \<Rightarrow> Handle \<Rightarrow> ServerObject" where
  "getServerObject rm deviceHandle objectHandle =
     (if unat deviceHandle \<ge> length (serverObjects rm)
         \<or> unat objectHandle \<ge> length (serverObjects rm ! unat deviceHandle)
      then ServerObject_default
      else serverObjects rm ! unat deviceHandle ! unat objectHandle)"

definition getArrayInfo :: "ResourceManager \<Rightarrow> Handle \<Rightarrow> Handle \<Rightarrow> ArrayInfo" where
  "getArrayInfo rm deviceHandle objectHandle =
     (if unat deviceHandle \<ge> length (serverArrays rm)
         \<or> unat objectHandle \<ge> length (serverArrays rm ! unat deviceHandle)
      then ArrayInfo_default
      else serverArrays rm ! unat deviceHandle ! unat objectHandle)"

subsection \<open>Sequences of resource-manager operations\<close>

datatype rm_op =
    RegisterDevice ptr
  | RegisterObject Handle Handle ptr ANARIDataType
  | RegisterArray Handle Handle ptr ArrayInfo
  | GetDevice Handle
  | GetServerObject Handle Handle
  | GetArrayInfo Handle Handle

text \<open>One operation: the handle it returns (only \<^verbatim>\<open>registerDevice\<close> returns one) and the
  manager afterwards. The three getters do not change the manager.\<close>

fun rm_step :: "rm_op \<Rightarrow> ResourceManager \<Rightarrow> fault + (Handle list \<times> ResourceManager)" where
  "rm_step (RegisterDevice dev) rm =
     (case registerDevice dev rm of Inl e \<Rightarrow> Inl e | Inr (h, rm') \<Rightarrow> Inr ([h], rm'))"
| "rm_step (RegisterObject d obj p ty) rm =
     (case registerObject d obj p ty rm of Inl e \<Rightarrow> Inl e | Inr rm' \<Rightarrow> Inr ([], rm'))"
| "rm_step (RegisterArray d obj p info) rm =
     (case registerArray d obj p info rm of Inl e \<Rightarrow> Inl e | Inr rm' \<Rightarrow> Inr ([], rm'))"
| "rm_step (GetDevice d) rm = Inr ([], rm)"
| "rm_step (GetServerObject d obj) rm = Inr ([], rm)"
| "rm_step (GetArrayInfo d obj) rm = Inr ([], rm)"

fun rm_run :: "rm_op list \<Rightarrow> ResourceManager \<Rightarrow> fault + (Handle list \<times> ResourceManager)" where
  "rm_run [] rm = Inr ([], rm)"
| "rm_run (op # ops) rm =
     (case rm_step op rm of
        Inl e \<Rightarrow> Inl e
      | Inr (hs, rm1) \<Rightarrow>
          (case rm_run ops rm1 of Inl e \<Rightarrow> Inl e | Inr (hs', rm2) \<Rightarrow> Inr (hs @ hs', rm2)))"

text \<open>The backend references handed to \<^verbatim>\<open>registerDevice\<close>, in order.\<close>

fun registered_devices :: "rm_op list \<Rightarrow> ptr list" where
  "registered_devices [] = []"
| "registered_devices (RegisterDevice dev # ops) = dev # registered_devices ops"
| "registered_devices (_ # ops) = registered_devices ops"

text \<open>The device indices of the (device, object) pairs that were registered.\<close>

fun registered_pairs :: "rm_op list \<Rightarrow> (Handle \<times> Handle) list" where
  "registered_pairs [] = []"
| "registered_pairs (RegisterObject d obj _ _ # ops) = (d, obj) # registered_pairs ops"
| "registered_pairs (RegisterArray d obj _ _ # ops) = (d, obj) # registered_pairs ops"
| "registered_pairs (_ # ops) = registered_pairs ops"

definition tables_aligned :: "ResourceManager \<Rightarrow> bool" where
  "tables_aligned rm \<longleftrightarrow>
     length (anariDevices rm) = length (serverObjects rm)
     \<and> length (serverObjects rm) = length (serverArrays rm)"


section \<open>Parameter store of helium\<close>

text \<open>
  \<^verbatim>\<open>ParameterizedObject\<close> keeps \<^verbatim>\<open>m_params\<close>, a \<^verbatim>\<open>std::vector\<close> of
  \<^verbatim>\<open>Param = std::pair<std::string, AnariAny>\<close>.
  Modelled from the spec: \<^verbatim>\<open>AnariAny\<close> (\<^verbatim>\<open>AnariAny.h\<close> is not among the sources) is a type tag
  with the value bytes; the default-constructed \<^verbatim>\<open>AnariAny()\<close> holds \<^verbatim>\<open>ANARI_UNKNOWN\<close> and no
  bytes. The \<^verbatim>\<open>const void *v\<close> argument of \<^verbatim>\<open>setParam\<close> is given by the bytes it points to.
\<close>

datatype AnariAny = AnariAny ANARIDataType "byte list"

definition AnariAny_default :: AnariAny where
  "AnariAny_default = AnariAny ANARI_UNKNOWN []"

type_synonym Param = "string \<times> AnariAny"

text \<open>\<^verbatim>\<open>std::find_if\<close>: the position of the first element satisfying \<open>P\<close>, or the length of
  the vector (\<^verbatim>\<open>end()\<close>) when there is none.\<close>

fun find_if :: "('a \<Rightarrow> bool) \<Rightarrow> 'a list \<Rightarrow> nat" where
  "find_if P [] = 0"
| "find_if P (x # xs) = (if P x then 0 else Suc (find_if P xs))"

text \<open>The \<^verbatim>\<open>const\<close> overload of \<^verbatim>\<open>findParam\<close>: the entry, or \<^verbatim>\<open>nullptr\<close>.\<close>

definition findParam_const :: "Param list \<Rightarrow> string \<Rightarrow> Param option" where
  "findParam_const m_params name =
     (let foundParam = find_if (\<lambda>p. fst p = name) m_params
      in if foundParam \<noteq> length m_params then Some (m_params ! foundParam) else None)"

text \<open>The mutable overload: the position of the entry, after
  \<^verbatim>\<open>m_params.emplace_back(name, AnariAny())\<close> when there was none.\<close>

definition findParam :: "string \<Rightarrow> Param list \<Rightarrow> nat \<times> Param list" where
  "findParam name m_params =
     (let foundParam = find_if (\<lambda>p. fst p = name) m_params
      in if foundParam \<noteq> length m_params then (foundParam, m_params)
         else (let m_params' = m_params @ [(name, AnariAny_default)]
               in (length m_params' - 1, m_params')))"

text \<open>\<^verbatim>\<open>findParam(name)->second = AnariAny(type, v);\<close>\<close>

definition setParam :: "string \<Rightarrow> ANARIDataType \<Rightarrow> byte list \<Rightarrow> Param list \<Rightarrow> Param list" where
  "setParam name ty v m_params =
     (let (i, ps) = findParam name m_params
      in ps[i := (fst (ps ! i), AnariAny ty v)])"

text \<open>\<^verbatim>\<open>auto *p = findParam(name); return p ? p->second : AnariAny();\<close>\<close>

definition getParamDirect :: "Param list \<Rightarrow> string \<Rightarrow> AnariAny" where
  "getParamDirect m_params name =
     (case findParam_const m_params name of Some p \<Rightarrow> snd p | None \<Rightarrow> AnariAny_default)"

section \<open>Wire codec\<close>

text \<open>
  Modelled from the spec: the wire codec (\<^verbatim>\<open>Buffer.h\<close> is not among the sources).
  ``Primitive encoding is little-endian, tightly packed, no padding. Integers and enum tags
  are fixed width. Strings are encoded as \<^verbatim>\<open>{ int32 length; length bytes; }\<close>.
  Arrays-of-strings are encoded as \<^verbatim>\<open>{ uint64 count; count x string; }\<close>. All reads are
  positional against a buffer cursor; a read past end signals a protocol error.''
  The server's own casts between byte buffers and integers
  (\<^verbatim>\<open>*(int32_t *)msg\<close>, \<^verbatim>\<open>(const uint64_t *)arrayData.data()\<close>) are little-endian as well.
\<close>

definition enc_le :: "nat \<Rightarrow> 'a::len word \<Rightarrow> byte list" where
  "enc_le n w = map (\<lambda>i. ucast (drop_bit (8 * i) w)) [0..<n]"

fun dec_le :: "byte list \<Rightarrow> 'a::len word" where
  "dec_le [] = 0"
| "dec_le (b # bs) = ucast b OR push_bit 8 (dec_le bs)"

abbreviation enc64 :: "64 word \<Rightarrow> byte list" where
  "enc64 \<equiv> enc_le 8"

abbreviation enc32 :: "32 word \<Rightarrow> byte list" where
  "enc32 \<equiv> enc_le 4"

definition enc_string :: "string \<Rightarrow> byte list" where
  "enc_string str = enc32 (of_nat (length str)) @ map (\<lambda>c. of_nat (of_char c)) str"

record Buffer =
  buf_data :: "byte list"
  pos :: nat

text \<open>\<^verbatim>\<open>Buffer buf(message->data(), message->size())\<close>: the cursor starts at 0.\<close>

definition Buffer_of :: "byte list \<Rightarrow> Buffer" where
  "Buffer_of bytes = \<lparr>buf_data = bytes, pos = 0\<rparr>"

text \<open>\<^verbatim>\<open>buf.read(ptr, n)\<close>: the next \<open>n\<close> bytes, or nothing when they are not all there.\<close>

definition read_bytes :: "nat \<Rightarrow> Buffer \<Rightarrow> (byte list \<times> Buffer) option" where
  "read_bytes n buf =
     (if pos buf + n \<le> length (buf_data buf)
      then Some (take n (drop (pos buf) (buf_data buf)), buf\<lparr>pos := pos buf + n\<rparr>)
      else None)"

definition read64 :: "Buffer \<Rightarrow> (64 word \<times> Buffer) option" where
  "read64 buf = (case read_bytes 8 buf of None \<Rightarrow> None | Some (bs, buf') \<Rightarrow> Some (dec_le bs, buf'))"

definition read32 :: "Buffer \<Rightarrow> (32 word \<times> Buffer) option" where
  "read32 buf = (case read_bytes 4 buf of None \<Rightarrow> None | Some (bs, buf') \<Rightarrow> Some (dec_le bs, buf'))"

text \<open>A string: its \<^verbatim>\<open>int32\<close> length, converted to \<^verbatim>\<open>size_t\<close>, then that many bytes.\<close>

definition read_string :: "Buffer \<Rightarrow> (string \<times> Buffer) option" where
  "read_string buf =
     (case read32 buf of
        None \<Rightarrow> None
      | Some (len, buf1) \<Rightarrow>
          (case read_bytes (unat (scast len :: 64 word)) buf1 of
             None \<Rightarrow> None
           | Some (bs, buf2) \<Rightarrow> Some (map (\<lambda>b. char_of (unat b)) bs, buf2)))"

section \<open>Array payload translation\<close>

text \<open>Slot \<open>i\<close> of a byte vector seen as \<^verbatim>\<open>uint64_t *\<close>; nothing when the slot is not
  inside the vector.\<close>

definition get_slot :: "byte list \<Rightarrow> nat \<Rightarrow> 64 word option" where
  "get_slot bytes i =
     (if 8 * i + 8 \<le> length bytes then Some (dec_le (take 8 (drop (8 * i) bytes))) else None)"

definition set_slot :: "byte list \<Rightarrow> nat \<Rightarrow> 64 word \<Rightarrow> byte list" where
  "set_slot bytes i w = take (8 * i) bytes @ enc64 w @ drop (8 * i + 8) bytes"

text \<open>
  \<^verbatim>\<open>for (size_t i = 0; i < numObjects; ++i) objects[i] = serverObjects[handles[i]].handle;\<close>
  \<^verbatim>\<open>handles\<close> and \<^verbatim>\<open>objects\<close> both alias \<^verbatim>\<open>arrayData.data()\<close>. Neither the slot nor the
  table subscript is checked.
\<close>

function translate_loop ::
  "ServerObject list \<Rightarrow> nat \<Rightarrow> nat \<Rightarrow> byte list \<Rightarrow> fault + byte list" where
  "translate_loop tbl numObjects i arrayData =
     (if i < numObjects then
        (case get_slot arrayData i of
           None \<Rightarrow> Inl OutOfRange
         | Some h \<Rightarrow>
             if unat h < length tbl
             then translate_loop tbl numObjects (Suc i)
                    (set_slot arrayData i (so_handle (tbl ! unat h)))
             else Inl OutOfRange)
      else Inr arrayData)"
  by pat_completeness auto
termination
  by (relation "measure (\<lambda>(tbl, numObjects, i, arrayData). numObjects - i)") auto

declare translate_loop.simps [simp del]

text \<open>
  \<^verbatim>\<open>std::vector<uint8_t> arrayData(info.getSizeInBytes());
  buf.read((char *)arrayData.data(), arrayData.size());
  if (anari::isObject(info.elementType)) {
    const auto &serverObjects = resourceManager.serverObjects[(uint64_t)dev];
    size_t numObjects = info.numItems1 * std::max(uint64_t(1), info.numItems2)
        * std::max(uint64_t(1), info.numItems3);
    ... the loop ...
  }
  return arrayData;\<close>
  \<open>dev\<close> is the client's device handle, cast to a pointer by the callers.
\<close>

definition translateArrayData ::
  "(ANARIDataType \<Rightarrow> bool) \<Rightarrow> (ANARIDataType \<Rightarrow> 64 word) \<Rightarrow> ResourceManager
    \<Rightarrow> Buffer \<Rightarrow> Handle \<Rightarrow> ArrayInfo \<Rightarrow> fault + (byte list \<times> Buffer)" where
  "translateArrayData isObject sizeOf rm buf dev info =
     (case read_bytes (unat (getSizeInBytes sizeOf info)) buf of
        None \<Rightarrow> Inl ReadPastEnd
      | Some (arrayData, buf') \<Rightarrow>
          if isObject (elementType info) then
            (if unat dev < length (serverObjects rm) then
               (let numObjects = numItems1 info * max 1 (numItems2 info) * max 1 (numItems3 info)
                in case translate_loop (serverObjects rm ! unat dev) (unat numObjects) 0 arrayData of
                     Inl e \<Rightarrow> Inl e
                   | Inr arrayData' \<Rightarrow> Inr (arrayData', buf'))
             else Inl OutOfRange)
          else Inr (arrayData, buf'))"


section \<open>The server and its collaborators\<close>

text \<open>
  Modelled from the spec: \<^verbatim>\<open>CompressionFeatures\<close> (\<^verbatim>\<open>Compression.h\<close> is not among the
  sources), ``the pair of boolean capability flags (lossy image codec, lossless byte
  codec)'', one byte each on the wire. The source names the fields \<^verbatim>\<open>hasTurboJPEG\<close> and
  \<^verbatim>\<open>hasSNAPPY\<close>.
\<close>

record CompressionFeatures =
  hasTurboJPEG :: bool
  hasSNAPPY :: bool

definition enc_features :: "CompressionFeatures \<Rightarrow> byte list" where
  "enc_features cf = [if hasTurboJPEG cf then 1 else 0, if hasSNAPPY cf then 1 else 0]"

definition dec_features :: "byte list \<Rightarrow> CompressionFeatures" where
  "dec_features bs = \<lparr>hasTurboJPEG = (bs ! 0 \<noteq> 0), hasSNAPPY = (bs ! 1 \<noteq> 0)\<rparr>"

datatype PixelFormat = RGBX | OtherPixelFormat

record TurboJPEGOptions =
  tj_width :: "32 word"
  tj_height :: "32 word"
  tj_pixelFormat :: PixelFormat
  tj_quality :: int

text \<open>The message types of \<^verbatim>\<open>common.h\<close> that the dispatcher names; any other tag is
  \<open>OtherMessage\<close>.\<close>

datatype MessageType =
    NewDevice | NewObject | NewArray | SetParam | UnsetParam | UnsetAllParams | CommitParams
  | Release | Retain | MapArray | UnmapArray | RenderFrame | FrameReady | GetProperty
  | GetObjectSubtypes | GetObjectInfo | GetParameterInfo
  | DeviceHandle | ArrayMapped | ArrayUnmapped | ChannelColor | ChannelDepth | FrameIsReady
  | Property | ObjectSubtypes | ObjectInfo | ParameterInfo
  | OtherMessage "32 word"

text \<open>\<^verbatim>\<open>async::connection::reason\<close>\<close>

datatype reason = Read | Write

text \<open>
  The calls that the server makes into the rendering backend, with their arguments, and
  the \<^verbatim>\<open>memcpy\<close> into memory that the backend mapped. A run of the server records them in
  order.
\<close>

datatype call =
    AnariNewDevice string
  | AnariNewLight ptr string | AnariNewCamera ptr string | AnariNewGeometry ptr string
  | AnariNewSpatialField ptr string | AnariNewSurface ptr | AnariNewVolume ptr string
  | AnariNewMaterial ptr string | AnariNewSampler ptr string | AnariNewGroup ptr
  | AnariNewInstance ptr string | AnariNewWorld ptr | AnariNewFrame ptr
  | AnariNewRenderer ptr string
  | AnariNewArray1D ptr ANARIDataType "64 word"
  | AnariNewArray2D ptr ANARIDataType "64 word" "64 word"
  | AnariNewArray3D ptr ANARIDataType "64 word" "64 word" "64 word"
  | AnariMapArray ptr ptr | AnariUnmapArray ptr ptr | Memcpy ptr "byte list"
  | AnariSetParameter ptr ptr string ANARIDataType "byte list"
  | AnariUnsetParameter ptr ptr string | AnariUnsetAllParameters ptr ptr
  | AnariCommitParameters ptr ptr | AnariRelease ptr ptr | AnariRetain ptr ptr
  | AnariRenderFrame ptr ptr | AnariFrameReady ptr ptr "32 word"
  | AnariMapFrame ptr ptr string
  | AnariGetProperty ptr ptr string ANARIDataType "64 word" "32 word"
  | AnariGetObjectSubtypes ptr ANARIDataType
  | AnariGetObjectInfo ptr ANARIDataType string string ANARIDataType
  | AnariGetParameterInfo ptr ANARIDataType string string ANARIDataType string ANARIDataType

text \<open>
  Everything the server takes from outside \<^verbatim>\<open>Server.cpp\<close>, as parameters. The backend is a
  black box whose answers may depend on all the calls made so far, so each answer is a
  function of that history and of the call:
  \<^item> \<open>isObject\<close>, \<open>sizeOf\<close>: \<^verbatim>\<open>anari::isObject\<close>, \<^verbatim>\<open>anari::sizeOf\<close>;
  \<^item> \<open>typeOfWire\<close>, \<open>wireOfType\<close>: the numbering of \<^verbatim>\<open>ANARIDataType\<close>;
  \<^item> \<open>anari_wait\<close>: \<^verbatim>\<open>ANARI_WAIT\<close>;
  \<^item> \<open>ret_ptr\<close>: the pointer a call returns (or stores through its \<^verbatim>\<open>void *\<close> out-parameter);
    \<open>ret_int\<close>: the \<^verbatim>\<open>int\<close> it returns; \<open>ret_frame\<close>: the width, height and pixel type that
    \<^verbatim>\<open>anariMapFrame\<close> stores; \<open>ret_value\<close>: the bytes \<^verbatim>\<open>anariGetProperty\<close> stores into the
    caller's buffer;
  \<^item> \<open>mem\<close>: the byte at an address of backend memory; \<open>mem_string\<close>: the C string at an
    address; \<open>write_StringList\<close>, \<open>write_ParameterList\<close>: the bytes that \<^verbatim>\<open>Buffer::write\<close>
    appends for the \<^verbatim>\<open>StringList\<close> or \<^verbatim>\<open>ParameterList\<close> built from an address;
  \<^item> \<open>serverCompression\<close>: \<^verbatim>\<open>getCompressionFeatures()\<close>; the two codecs with the sizes of
    their output buffers. A codec returns the bytes it produced, or nothing when it fails.
\<close>

record env =
  isObject :: "ANARIDataType \<Rightarrow> bool"
  sizeOf :: "ANARIDataType \<Rightarrow> 64 word"
  typeOfWire :: "32 word \<Rightarrow> ANARIDataType"
  wireOfType :: "ANARIDataType \<Rightarrow> 32 word"
  anari_wait :: "32 word"
  ret_ptr :: "call list \<Rightarrow> call \<Rightarrow> ptr"
  ret_int :: "call list \<Rightarrow> call \<Rightarrow> 32 word"
  ret_frame :: "call list \<Rightarrow> call \<Rightarrow> 32 word \<times> 32 word \<times> ANARIDataType"
  ret_value :: "call list \<Rightarrow> call \<Rightarrow> nat \<Rightarrow> byte"
  mem :: "call list \<Rightarrow> ptr \<Rightarrow> byte"
  mem_string :: "call list \<Rightarrow> ptr \<Rightarrow> string"
  write_StringList :: "call list \<Rightarrow> ptr \<Rightarrow> byte list"
  write_ParameterList :: "call list \<Rightarrow> ptr \<Rightarrow> byte list"
  serverCompression :: CompressionFeatures
  getMaxCompressedBufferSizeTurboJPEG :: "TurboJPEGOptions \<Rightarrow> 64 word"
  compressTurboJPEG :: "call list \<Rightarrow> ptr \<Rightarrow> TurboJPEGOptions \<Rightarrow> byte list option"
  getMaxCompressedBufferSizeSNAPPY :: "64 word \<Rightarrow> 64 word"
  compressSNAPPY :: "call list \<Rightarrow> ptr \<Rightarrow> 64 word \<Rightarrow> byte list option"

text \<open>
  \<^verbatim>\<open>struct Server\<close>: the client's features, the resource manager, and what the server has
  done so far: \<open>queue\<close> holds the messages handed to \<^verbatim>\<open>write\<close> (posted on the work queue),
  in order; \<open>calls\<close> the backend calls, in order; \<open>stopped\<close> whether \<^verbatim>\<open>manager->stop()\<close>
  was called.
\<close>

record Server =
  client_compression :: CompressionFeatures
  resourceManager :: ResourceManager
  queue :: "(MessageType \<times> byte list) list"
  calls :: "call list"
  stopped :: bool

definition Server_init :: Server where
  "Server_init =
     \<lparr>client_compression = \<lparr>hasTurboJPEG = False, hasSNAPPY = False\<rparr>,
      resourceManager = ResourceManager_init, queue = [], calls = [], stopped = False\<rparr>"

text \<open>
  How the handling of one message ends: \<^verbatim>\<open>handleMessage\<close> returns; or an exception leaves
  \<^verbatim>\<open>handleMessage\<close> (it has no \<^verbatim>\<open>try\<close> block), with the server as it was at the
  \<^verbatim>\<open>throw\<close>; or a fault. Logging and failing allocations are not part of the model.
\<close>

datatype outcome = Returned Server | Threw Server | Faulted fault

definition post :: "MessageType \<Rightarrow> byte list \<Rightarrow> Server \<Rightarrow> Server" where
  "post ty outbuf s = s\<lparr>queue := queue s @ [(ty, outbuf)]\<rparr>"

definition invoke :: "call \<Rightarrow> Server \<Rightarrow> Server" where
  "invoke c s = s\<lparr>calls := calls s @ [c]\<rparr>"

definition call_ptr :: "env \<Rightarrow> call \<Rightarrow> Server \<Rightarrow> ptr \<times> Server" where
  "call_ptr env c s = (ret_ptr env (calls s) c, invoke c s)"

definition read_mem :: "env \<Rightarrow> Server \<Rightarrow> ptr \<Rightarrow> nat \<Rightarrow> byte list" where
  "read_mem env s p n = map (\<lambda>i. mem env (calls s) (p + of_nat i)) [0..<n]"

definition reading :: "('a \<times> Buffer) option \<Rightarrow> ('a \<Rightarrow> Buffer \<Rightarrow> outcome) \<Rightarrow> outcome" where
  "reading r k = (case r of None \<Rightarrow> Faulted ReadPastEnd | Some (x, buf) \<Rightarrow> k x buf)"

definition read_type :: "env \<Rightarrow> Buffer \<Rightarrow> (ANARIDataType \<times> Buffer) option" where
  "read_type env buf =
     (case read32 buf of None \<Rightarrow> None | Some (w, buf') \<Rightarrow> Some (typeOfWire env w, buf'))"

definition enc_type :: "env \<Rightarrow> ANARIDataType \<Rightarrow> byte list" where
  "enc_type env ty = enc32 (wireOfType env ty)"

text \<open>\<^verbatim>\<open>static ANARIObject newObject(ANARIDevice dev, ANARIDataType type, std::string subtype)\<close>\<close>

definition newObject :: "env \<Rightarrow> ptr \<Rightarrow> ANARIDataType \<Rightarrow> string \<Rightarrow> Server \<Rightarrow> ptr \<times> Server" where
  "newObject env dev ty subtype s =
     (if ty = ANARI_LIGHT then call_ptr env (AnariNewLight dev subtype) s
      else if ty = ANARI_CAMERA then call_ptr env (AnariNewCamera dev subtype) s
      else if ty = ANARI_GEOMETRY then call_ptr env (AnariNewGeometry dev subtype) s
      else if ty = ANARI_SPATIAL_FIELD then call_ptr env (AnariNewSpatialField dev subtype) s
      else if ty = ANARI_SURFACE then call_ptr env (AnariNewSurface dev) s
      else if ty = ANARI_VOLUME then call_ptr env (AnariNewVolume dev subtype) s
      else if ty = ANARI_MATERIAL then call_ptr env (AnariNewMaterial dev subtype) s
      else if ty = ANARI_SAMPLER then call_ptr env (AnariNewSampler dev subtype) s
      else if ty = ANARI_GROUP then call_ptr env (AnariNewGroup dev) s
      else if ty = ANARI_INSTANCE then call_ptr env (AnariNewInstance dev subtype) s
      else if ty = ANARI_WORLD then call_ptr env (AnariNewWorld dev) s
      else if ty = ANARI_FRAME then call_ptr env (AnariNewFrame dev) s
      else if ty = ANARI_RENDERER then call_ptr env (AnariNewRenderer dev subtype) s
      else (nullptr, s))"

text \<open>
  \<^verbatim>\<open>static ANARIArray newArray(ANARIDevice dev, const ArrayInfo &info, const uint8_t *data)\<close>.
  The callers pass \<^verbatim>\<open>arrayData.data()\<close>, which is null exactly for an empty vector; a
  non-empty \<open>arrayData\<close> holds \<^verbatim>\<open>info.getSizeInBytes()\<close> bytes, all of which are copied.
\<close>

definition newArray :: "env \<Rightarrow> ptr \<Rightarrow> ArrayInfo \<Rightarrow> byte list \<Rightarrow> Server \<Rightarrow> ptr \<times> Server" where
  "newArray env dev info arrayData s =
     (case (if ai_type info = ANARI_ARRAY1D
            then call_ptr env (AnariNewArray1D dev (elementType info) (numItems1 info)) s
            else if ai_type info = ANARI_ARRAY2D
            then call_ptr env (AnariNewArray2D dev (elementType info)
                                 (numItems1 info) (numItems2 info)) s
            else if ai_type info = ANARI_ARRAY3D
            then call_ptr env (AnariNewArray3D dev (elementType info)
                                 (numItems1 info) (numItems2 info) (numItems3 info)) s
            else (nullptr, s)) of
        (array, s1) \<Rightarrow>
          if array \<noteq> nullptr \<and> arrayData \<noteq> [] then
            (case call_ptr env (AnariMapArray dev array) s1 of
               (p, s2) \<Rightarrow> (array, invoke (AnariUnmapArray dev array) (invoke (Memcpy p arrayData) s2)))
          else (array, s1))"


section \<open>The message dispatcher\<close>

text \<open>
  One definition for each branch of \<^verbatim>\<open>Server::handleMessage\<close>, in the order of the source.
  \<open>body\<close> is \<^verbatim>\<open>message->data()\<close>, of \<^verbatim>\<open>message->size()\<close> bytes.
\<close>

text \<open>
  \<^verbatim>\<open>NewDevice\<close> is parsed through raw pointers, with no bounds check:
  \<^verbatim>\<open>int32_t len = *(int32_t *)msg; std::string deviceType(msg, len);
  client.compression = *(CompressionFeatures *)msg;\<close>
\<close>

definition handle_NewDevice :: "env \<Rightarrow> Server \<Rightarrow> byte list \<Rightarrow> outcome" where
  "handle_NewDevice env s body =
     (if length body < 4 then Faulted OutOfRange
      else
        let len = (dec_le (take 4 body) :: 32 word);
            n = unat (scast len :: 64 word)
        in if length body < 4 + n + 2 then Faulted OutOfRange
           else
             let deviceType = map (\<lambda>b. char_of (unat b)) (take n (drop 4 body));
                 s1 = s\<lparr>client_compression := dec_features (take 2 (drop (4 + n) body))\<rparr>
             in case call_ptr env (AnariNewDevice deviceType) s1 of
                  (dev, s2) \<Rightarrow>
                    (case registerDevice dev (resourceManager s2) of
                       Inl e \<Rightarrow> Faulted e
                     | Inr (deviceHandle, rm) \<Rightarrow>
                         Returned (post DeviceHandle
                           (enc64 deviceHandle @ enc_features (serverCompression env))
                           (s2\<lparr>resourceManager := rm\<rparr>))))"

definition handle_NewObject :: "env \<Rightarrow> Server \<Rightarrow> byte list \<Rightarrow> outcome" where
  "handle_NewObject env s body =
     reading (read64 (Buffer_of body)) (\<lambda>deviceHandle buf.
     reading (read_type env buf) (\<lambda>ty buf.
     reading (read_string buf) (\<lambda>subtype buf.
     reading (read64 buf) (\<lambda>objectID buf.
       let dev = getDevice (resourceManager s) deviceHandle
       in if dev = nullptr then Returned s
          else
            (case newObject env dev ty subtype s of
               (anariObj, s1) \<Rightarrow>
                 (case registerObject deviceHandle objectID anariObj ty (resourceManager s1) of
                    Inl e \<Rightarrow> Faulted e
                  | Inr rm \<Rightarrow> Returned (s1\<lparr>resourceManager := rm\<rparr>)))))))"

definition handle_NewArray :: "env \<Rightarrow> Server \<Rightarrow> byte list \<Rightarrow> outcome" where
  "handle_NewArray env s body =
     reading (read64 (Buffer_of body)) (\<lambda>deviceHandle buf.
     reading (read_type env buf) (\<lambda>info_type buf.
     reading (read64 buf) (\<lambda>objectID buf.
     reading (read_type env buf) (\<lambda>info_elementType buf.
     reading (read64 buf) (\<lambda>n1 buf.
     reading (read64 buf) (\<lambda>n2 buf.
     reading (read64 buf) (\<lambda>n3 buf.
       let info = \<lparr>ai_type = info_type, elementType = info_elementType,
                   numItems1 = n1, numItems2 = n2, numItems3 = n3\<rparr>;
           dev = getDevice (resourceManager s) deviceHandle
       in if dev = nullptr then Returned s
          else
            (case (if pos buf < length body
                   then (case translateArrayData (isObject env) (sizeOf env) (resourceManager s)
                                buf deviceHandle info of
                           Inl e \<Rightarrow> Inl e | Inr (arrayData, buf') \<Rightarrow> Inr arrayData)
                   else Inr []) of
               Inl e \<Rightarrow> Faulted e
             | Inr arrayData \<Rightarrow>
                 (case newArray env dev info arrayData s of
                    (anariArr, s1) \<Rightarrow>
                      (case registerArray deviceHandle objectID anariArr info (resourceManager s1) of
                         Inl e \<Rightarrow> Faulted e
                       | Inr rm \<Rightarrow> Returned (s1\<lparr>resourceManager := rm\<rparr>)))))))))))"

text \<open>
  The skeleton shared by \<^verbatim>\<open>SetParam\<close>, \<^verbatim>\<open>UnsetParam\<close>, \<^verbatim>\<open>UnsetAllParams\<close>, the two-handle
  \<^verbatim>\<open>CommitParams\<close>, \<^verbatim>\<open>Release\<close>, \<^verbatim>\<open>Retain\<close>, \<^verbatim>\<open>MapArray\<close> and \<^verbatim>\<open>UnmapArray\<close>:
  \<^verbatim>\<open>buf.read(deviceHandle); buf.read(objectHandle);
  ANARIDevice dev = resourceManager.getDevice(deviceHandle);
  ServerObject serverObj = resourceManager.getServerObject(deviceHandle, objectHandle);
  if (!dev || !serverObj.handle) { LOG(...); return; }\<close>
\<close>

definition with_device_object ::
  "Server \<Rightarrow> Buffer \<Rightarrow> (Handle \<Rightarrow> Handle \<Rightarrow> ptr \<Rightarrow> ServerObject \<Rightarrow> Buffer \<Rightarrow> outcome) \<Rightarrow> outcome" where
  "with_device_object s buf0 k =
     reading (read64 buf0) (\<lambda>deviceHandle buf.
     reading (read64 buf) (\<lambda>objectHandle buf.
       let dev = getDevice (resourceManager s) deviceHandle;
           serverObj = getServerObject (resourceManager s) deviceHandle objectHandle
       in if dev = nullptr \<or> so_handle serverObj = nullptr then Returned s
          else k deviceHandle objectHandle dev serverObj buf))"

text \<open>
  \<^verbatim>\<open>SetParam\<close>. For an object-typed parameter the value is a client handle \<^verbatim>\<open>hnd\<close> and the
  backend receives \<^verbatim>\<open>&serverObjects[hnd].handle\<close>, with no check of \<^verbatim>\<open>hnd\<close>.
\<close>

definition handle_SetParam :: "env \<Rightarrow> Server \<Rightarrow> byte list \<Rightarrow> outcome" where
  "handle_SetParam env s body =
     with_device_object s (Buffer_of body) (\<lambda>deviceHandle objectHandle dev serverObj buf.
     reading (read_string buf) (\<lambda>name buf.
     reading (read_type env buf) (\<lambda>parmType buf.
     reading (if isObject env parmType then read_bytes 8 buf
              else read_bytes (unat (sizeOf env parmType)) buf) (\<lambda>parmValue buf.
       if isObject env parmType then
         (if unat deviceHandle < length (serverObjects (resourceManager s)) then
            (let tbl = serverObjects (resourceManager s) ! unat deviceHandle;
                 hnd = (dec_le parmValue :: Handle)
             in if unat hnd < length tbl
                then Returned (invoke (AnariSetParameter dev (so_handle serverObj) name parmType
                                 (enc64 (so_handle (tbl ! unat hnd)))) s)
                else Faulted OutOfRange)
          else Faulted OutOfRange)
       else Returned (invoke (AnariSetParameter dev (so_handle serverObj) name parmType
                        parmValue) s)))))"

definition handle_UnsetParam :: "env \<Rightarrow> Server \<Rightarrow> byte list \<Rightarrow> outcome" where
  "handle_UnsetParam env s body =
     with_device_object s (Buffer_of body) (\<lambda>deviceHandle objectHandle dev serverObj buf.
     reading (read_string buf) (\<lambda>name buf.
       Returned (invoke (AnariUnsetParameter dev (so_handle serverObj) name) s)))"

definition handle_UnsetAllParams :: "env \<Rightarrow> Server \<Rightarrow> byte list \<Rightarrow> outcome" where
  "handle_UnsetAllParams env s body =
     with_device_object s (Buffer_of body) (\<lambda>deviceHandle objectHandle dev serverObj buf.
       Returned (invoke (AnariUnsetAllParameters dev (so_handle serverObj)) s))"

text \<open>
  \<^verbatim>\<open>if (message->size() == sizeof(Handle)) { // handle only => commit params of the device
  itself! ... anariCommitParameters(dev, dev); } else { ...
  anariCommitParameters(dev, serverObj.handle); }\<close>
\<close>

definition handle_CommitParams :: "env \<Rightarrow> Server \<Rightarrow> byte list \<Rightarrow> outcome" where
  "handle_CommitParams env s body =
     (if length body = 8 then
        reading (read64 (Buffer_of body)) (\<lambda>device buf.
          let dev = getDevice (resourceManager s) device
          in if dev = nullptr then Returned s
             else Returned (invoke (AnariCommitParameters dev dev) s))
      else
        with_device_object s (Buffer_of body) (\<lambda>deviceHandle objectHandle dev serverObj buf.
          Returned (invoke (AnariCommitParameters dev (so_handle serverObj)) s)))"

definition handle_Release :: "env \<Rightarrow> Server \<Rightarrow> byte list \<Rightarrow> outcome" where
  "handle_Release env s body =
     with_device_object s (Buffer_of body) (\<lambda>deviceHandle objectHandle dev serverObj buf.
       Returned (invoke (AnariRelease dev (so_handle serverObj)) s))"

definition handle_Retain :: "env \<Rightarrow> Server \<Rightarrow> byte list \<Rightarrow> outcome" where
  "handle_Retain env s body =
     with_device_object s (Buffer_of body) (\<lambda>deviceHandle objectHandle dev serverObj buf.
       Returned (invoke (AnariRetain dev (so_handle serverObj)) s))"

definition handle_MapArray :: "env \<Rightarrow> Server \<Rightarrow> byte list \<Rightarrow> outcome" where
  "handle_MapArray env s body =
     with_device_object s (Buffer_of body) (\<lambda>deviceHandle objectHandle dev serverObj buf.
       case call_ptr env (AnariMapArray dev (so_handle serverObj)) s of
         (p, s1) \<Rightarrow>
           let info = getArrayInfo (resourceManager s1) deviceHandle objectHandle;
               numBytes = getSizeInBytes (sizeOf env) info
           in Returned (post ArrayMapped
                (enc64 objectHandle @ enc64 numBytes @ read_mem env s1 p (unat numBytes)) s1))"

definition handle_UnmapArray :: "env \<Rightarrow> Server \<Rightarrow> byte list \<Rightarrow> outcome" where
  "handle_UnmapArray env s body =
     with_device_object s (Buffer_of body) (\<lambda>deviceHandle objectHandle dev serverObj buf.
       let s1 = invoke (AnariUnmapArray dev (so_handle serverObj)) s
       in case call_ptr env (AnariMapArray dev (so_handle serverObj)) s1 of
            (p, s2) \<Rightarrow>
              (case (if pos buf < length body
                     then (case translateArrayData (isObject env) (sizeOf env) (resourceManager s2)
                                  buf deviceHandle
                                  (getArrayInfo (resourceManager s2) deviceHandle objectHandle) of
                             Inl e \<Rightarrow> Inl e
                           | Inr (arrayData, buf') \<Rightarrow> Inr (invoke (Memcpy p arrayData) s2))
                     else Inr s2) of
                 Inl e \<Rightarrow> Faulted e
               | Inr s3 \<Rightarrow>
                   Returned (post ArrayUnmapped (enc64 objectHandle)
                     (invoke (AnariUnmapArray dev (so_handle serverObj)) s3))))"

text \<open>
  The colour channel of \<^verbatim>\<open>RenderFrame\<close>:
  \<^verbatim>\<open>size_t colorSize = type == ANARI_UNKNOWN ? 0 : width * height * anari::sizeOf(type);\<close>
  where \<^verbatim>\<open>width * height\<close> is a product of two \<^verbatim>\<open>uint32_t\<close>. The codec must not produce
  more bytes than the buffer \<^verbatim>\<open>compressed\<close> holds.
\<close>

definition channel_size :: "env \<Rightarrow> 32 word \<Rightarrow> 32 word \<Rightarrow> ANARIDataType \<Rightarrow> 64 word" where
  "channel_size env width height ty =
     (if ty = ANARI_UNKNOWN then 0 else ucast (width * height) * sizeOf env ty)"

definition channel_header ::
  "env \<Rightarrow> Handle \<Rightarrow> 32 word \<Rightarrow> 32 word \<Rightarrow> ANARIDataType \<Rightarrow> byte list" where
  "channel_header env objectHandle width height ty =
     enc64 objectHandle @ enc32 width @ enc32 height @ enc_type env ty"

definition colorChannel :: "env \<Rightarrow> Handle \<Rightarrow> ptr \<Rightarrow> ptr \<Rightarrow> Server \<Rightarrow> fault + Server" where
  "colorChannel env objectHandle dev frame s =
     (let c = AnariMapFrame dev frame ''channel.color'';
          color = ret_ptr env (calls s) c
      in case ret_frame env (calls s) c of
           (width, height, ty) \<Rightarrow>
             let s1 = invoke c s;
                 colorSize = channel_size env width height ty
             in if color \<noteq> nullptr \<and> colorSize \<noteq> 0 then
                  (let outbuf = channel_header env objectHandle width height ty;
                       compressionTurboJPEG =
                         (hasTurboJPEG (serverCompression env)
                          \<and> hasTurboJPEG (client_compression s1))
                   in if compressionTurboJPEG \<and> ty = ANARI_UFIXED8_RGBA_SRGB then
                        (let options = \<lparr>tj_width = width, tj_height = height,
                                        tj_pixelFormat = RGBX, tj_quality = 80\<rparr>;
                             compressed_size = getMaxCompressedBufferSizeTurboJPEG env options
                         in if compressed_size \<noteq> 0 then
                              (case compressTurboJPEG env (calls s1) color options of
                                 Some compressed \<Rightarrow>
                                   if length compressed \<le> unat compressed_size
                                   then Inr (post ChannelColor
                                          (outbuf @ enc32 (of_nat (length compressed)) @ compressed)
                                          s1)
                                   else Inl OutOfRange
                               | None \<Rightarrow> Inr (post ChannelColor outbuf s1))
                            else Inr (post ChannelColor outbuf s1))
                      else Inr (post ChannelColor
                             (outbuf @ read_mem env s1 color (unat colorSize)) s1))
                else Inr s1)"

text \<open>The depth channel. The result of \<^verbatim>\<open>compressSNAPPY\<close> is not looked at, and
  \<^verbatim>\<open>compressedSize\<close> starts at 0.\<close>

definition depthChannel :: "env \<Rightarrow> Handle \<Rightarrow> ptr \<Rightarrow> ptr \<Rightarrow> Server \<Rightarrow> fault + Server" where
  "depthChannel env objectHandle dev frame s =
     (let c = AnariMapFrame dev frame ''channel.depth'';
          depth = ret_ptr env (calls s) c
      in case ret_frame env (calls s) c of
           (width, height, ty) \<Rightarrow>
             let s1 = invoke c s;
                 depthSize = channel_size env width height ty
             in if depth \<noteq> nullptr \<and> depthSize \<noteq> 0 then
                  (let outbuf = channel_header env objectHandle width height ty;
                       compressionSNAPPY =
                         (hasSNAPPY (serverCompression env) \<and> hasSNAPPY (client_compression s1))
                   in if compressionSNAPPY \<and> ty = ANARI_FLOAT32 then
                        (let compressed_size = getMaxCompressedBufferSizeSNAPPY env depthSize;
                             compressed = (case compressSNAPPY env (calls s1) depth depthSize of
                                             Some bytes \<Rightarrow> bytes | None \<Rightarrow> [])
                         in if length compressed \<le> unat compressed_size
                            then Inr (post ChannelDepth
                                   (outbuf @ enc32 (of_nat (length compressed)) @ compressed) s1)
                            else Inl OutOfRange)
                      else Inr (post ChannelDepth
                             (outbuf @ read_mem env s1 depth (unat depthSize)) s1))
                else Inr s1)"

text \<open>\<^verbatim>\<open>RenderFrame\<close>: only the device is checked; \<^verbatim>\<open>frame\<close> is whatever
  \<^verbatim>\<open>getServerObject(deviceHandle, objectHandle).handle\<close> is.\<close>

definition handle_RenderFrame :: "env \<Rightarrow> Server \<Rightarrow> byte list \<Rightarrow> outcome" where
  "handle_RenderFrame env s body =
     reading (read64 (Buffer_of body)) (\<lambda>deviceHandle buf.
     reading (read64 buf) (\<lambda>objectHandle buf.
       let dev = getDevice (resourceManager s) deviceHandle
       in if dev = nullptr then Returned s
          else
            let frame = so_handle (getServerObject (resourceManager s) deviceHandle objectHandle);
                s1 = invoke (AnariRenderFrame dev frame) s;
                s2 = invoke (AnariFrameReady dev frame (anari_wait env)) s1
            in case colorChannel env objectHandle dev frame s2 of
                 Inl e \<Rightarrow> Faulted e
               | Inr s3 \<Rightarrow>
                   (case depthChannel env objectHandle dev frame s3 of
                      Inl e \<Rightarrow> Faulted e
                    | Inr s4 \<Rightarrow> Returned s4)))"

definition handle_FrameReady :: "env \<Rightarrow> Server \<Rightarrow> byte list \<Rightarrow> outcome" where
  "handle_FrameReady env s body =
     reading (read64 (Buffer_of body)) (\<lambda>deviceHandle buf.
     reading (read64 buf) (\<lambda>objectHandle buf.
       let dev = getDevice (resourceManager s) deviceHandle
       in if dev = nullptr then Returned s
          else
            reading (read32 buf) (\<lambda>waitMask buf.
              let frame = so_handle (getServerObject (resourceManager s) deviceHandle objectHandle)
              in Returned (post FrameIsReady (enc64 objectHandle)
                   (invoke (AnariFrameReady dev frame waitMask) s)))))"

text \<open>
  \<^verbatim>\<open>GetProperty\<close>. \<^verbatim>\<open>if (!serverObj.handle) { // then we're querying properties on the device
  itself! ... serverObj.handle = dev; ... }\<close> and
  \<^verbatim>\<open>else if (type == ANARI_DATA_TYPE_LIST) { throw std::runtime_error("getProperty with
  ANARI_DATA_TYPE_LIST not implemented yet!"); }\<close>
\<close>

definition handle_GetProperty :: "env \<Rightarrow> Server \<Rightarrow> byte list \<Rightarrow> outcome" where
  "handle_GetProperty env s body =
     reading (read64 (Buffer_of body)) (\<lambda>deviceHandle buf.
     reading (read64 buf) (\<lambda>objectHandle buf.
       let dev = getDevice (resourceManager s) deviceHandle
       in if dev = nullptr then Returned s
          else
            let serverObj0 = getServerObject (resourceManager s) deviceHandle objectHandle;
                serverObj = (if so_handle serverObj0 = nullptr
                             then \<lparr>so_device = dev, so_handle = dev, so_type = ANARI_DEVICE\<rparr>
                             else serverObj0)
            in
            reading (read_string buf) (\<lambda>name buf.
            reading (read_type env buf) (\<lambda>ty buf.
            reading (read64 buf) (\<lambda>size buf.
            reading (read32 buf) (\<lambda>mask buf.
              let c = AnariGetProperty dev (so_handle serverObj) name ty size mask
              in if ty = ANARI_STRING_LIST then
                   (let result = ret_int env (calls s) c;
                        val = ret_ptr env (calls s) c;
                        s1 = invoke c s
                    in Returned (post Property
                         (enc64 objectHandle @ enc_string name @ enc32 result
                          @ write_StringList env (calls s1) val) s1))
                 else if ty = ANARI_DATA_TYPE_LIST then Threw s
                 else
                   (let result = ret_int env (calls s) c;
                        m = map (ret_value env (calls s) c) [0..<unat size];
                        s1 = invoke c s
                    in Returned (post Property
                         (enc64 objectHandle @ enc_string name @ enc32 result @ m) s1))))))))"

definition handle_GetObjectSubtypes :: "env \<Rightarrow> Server \<Rightarrow> byte list \<Rightarrow> outcome" where
  "handle_GetObjectSubtypes env s body =
     reading (read64 (Buffer_of body)) (\<lambda>deviceHandle buf.
     reading (read_type env buf) (\<lambda>objectType buf.
       let dev = getDevice (resourceManager s) deviceHandle
       in if dev = nullptr then Returned s
          else
            (case call_ptr env (AnariGetObjectSubtypes dev objectType) s of
               (subtypes, s1) \<Rightarrow>
                 Returned (post ObjectSubtypes
                   (enc_type env objectType @ write_StringList env (calls s1) subtypes) s1))))"

text \<open>The payload that \<^verbatim>\<open>GetObjectInfo\<close> and \<^verbatim>\<open>GetParameterInfo\<close> append for a non-null
  \<^verbatim>\<open>info\<close>.\<close>

definition info_payload :: "env \<Rightarrow> Server \<Rightarrow> ptr \<Rightarrow> ANARIDataType \<Rightarrow> byte list" where
  "info_payload env s info infoType =
     (if info \<noteq> nullptr then
        (if infoType = ANARI_STRING then enc_string (mem_string env (calls s) info)
         else if infoType = ANARI_STRING_LIST then write_StringList env (calls s) info
         else if infoType = ANARI_PARAMETER_LIST then write_ParameterList env (calls s) info
         else read_mem env s info (unat (sizeOf env infoType)))
      else [])"

definition handle_GetObjectInfo :: "env \<Rightarrow> Server \<Rightarrow> byte list \<Rightarrow> outcome" where
  "handle_GetObjectInfo env s body =
     reading (read64 (Buffer_of body)) (\<lambda>deviceHandle buf.
     reading (read_type env buf) (\<lambda>objectType buf.
     reading (read_string buf) (\<lambda>objectSubtype buf.
     reading (read_string buf) (\<lambda>infoName buf.
     reading (read_type env buf) (\<lambda>infoType buf.
       let dev = getDevice (resourceManager s) deviceHandle
       in if dev = nullptr then Returned s
          else
            (case call_ptr env
                    (AnariGetObjectInfo dev objectType objectSubtype infoName infoType) s of
               (info, s1) \<Rightarrow>
                 Returned (post ObjectInfo
                   (enc_type env objectType @ enc_string objectSubtype @ enc_string infoName
                    @ enc_type env infoType @ info_payload env s1 info infoType) s1)))))))"

definition handle_GetParameterInfo :: "env \<Rightarrow> Server \<Rightarrow> byte list \<Rightarrow> outcome" where
  "handle_GetParameterInfo env s body =
     reading (read64 (Buffer_of body)) (\<lambda>deviceHandle buf.
     reading (read_type env buf) (\<lambda>objectType buf.
     reading (read_string buf) (\<lambda>objectSubtype buf.
     reading (read_string buf) (\<lambda>parameterName buf.
     reading (read_type env buf) (\<lambda>parameterType buf.
     reading (read_string buf) (\<lambda>infoName buf.
     reading (read_type env buf) (\<lambda>infoType buf.
       let dev = getDevice (resourceManager s) deviceHandle
       in if dev = nullptr then Returned s
          else
            (case call_ptr env
                    (AnariGetParameterInfo dev objectType objectSubtype parameterName
                       parameterType infoName infoType) s of
               (info, s1) \<Rightarrow>
                 Returned (post ParameterInfo
                   (enc_type env objectType @ enc_string objectSubtype
                    @ enc_string parameterName @ enc_type env parameterType
                    @ enc_string infoName @ enc_type env infoType
                    @ info_payload env s1 info infoType) s1)))))))))"

text \<open>
  \<^verbatim>\<open>void handleMessage(async::connection::reason reason, async::message_pointer message,
  boost::system::error_code const &e)\<close>: on a transport error the manager is stopped;
  a message that was read is dispatched on its type; an unknown type is only logged.
\<close>

definition handleMessage ::
  "env \<Rightarrow> Server \<Rightarrow> reason \<Rightarrow> MessageType \<Rightarrow> byte list \<Rightarrow> bool \<Rightarrow> outcome" where
  "handleMessage env s rsn ty body e =
     (if e then Returned (s\<lparr>stopped := True\<rparr>)
      else if rsn = Read then
        (if ty = NewDevice then handle_NewDevice env s body
         else if ty = NewObject then handle_NewObject env s body
         else if ty = NewArray then handle_NewArray env s body
         else if ty = SetParam then handle_SetParam env s body
         else if ty = UnsetParam then handle_UnsetParam env s body
         else if ty = UnsetAllParams then handle_UnsetAllParams env s body
         else if ty = CommitParams then handle_CommitParams env s body
         else if ty = Release then handle_Release env s body
         else if ty = Retain then handle_Retain env s body
         else if ty = MapArray then handle_MapArray env s body
         else if ty = UnmapArray then handle_UnmapArray env s body
         else if ty = RenderFrame then handle_RenderFrame env s body
         else if ty = FrameReady then handle_FrameReady env s body
         else if ty = GetProperty then handle_GetProperty env s body
         else if ty = GetObjectSubtypes then handle_GetObjectSubtypes env s body
         else if ty = GetObjectInfo then handle_GetObjectInfo env s body
         else if ty = GetParameterInfo then handle_GetParameterInfo env s body
         else Returned s)
      else Returned s)"


section \<open>Notions used to state the properties\<close>

text \<open>
  The state of the device table after the backend references \<open>ds\<close> were registered, in that
  order: slot 0 is never handed out, slot \<open>i + 1\<close> holds the \<open>i\<close>-th reference, and the next
  handle is one past the last slot.
\<close>

definition dev_inv :: "ptr list \<Rightarrow> ResourceManager \<Rightarrow> bool" where
  "dev_inv ds rm \<longleftrightarrow>
     unat (nextDeviceHandle rm) = Suc (length ds)
     \<and> anariDevices rm = (if ds = [] then [] else nullptr # ds)"

text \<open>Each of the first \<open>n\<close> slots of the payload lies inside it and holds a client handle
  below the length of the object table.\<close>

definition slots_known :: "ServerObject list \<Rightarrow> nat \<Rightarrow> byte list \<Rightarrow> bool" where
  "slots_known tbl n payload \<longleftrightarrow>
     list_all (\<lambda>i. case get_slot payload i of None \<Rightarrow> False | Some h \<Rightarrow> unat h < length tbl)
       [0..<n]"

text \<open>The contract of the two codecs: what a codec produces fits the buffer whose size the
  server asked for.\<close>

definition codecs_fit :: "env \<Rightarrow> bool" where
  "codecs_fit env \<longleftrightarrow>
     (\<forall>tr p opts c. compressTurboJPEG env tr p opts = Some c
         \<longrightarrow> length c \<le> unat (getMaxCompressedBufferSizeTurboJPEG env opts))
     \<and> (\<forall>tr p n c. compressSNAPPY env tr p n = Some c
         \<longrightarrow> length c \<le> unat (getMaxCompressedBufferSizeSNAPPY env n))"

text \<open>After the calls \<open>tr\<close>, \<^verbatim>\<open>anariMapFrame\<close> gives a non-null pointer and a non-zero byte
  size for the channel.\<close>

definition frame_channel_present :: "env \<Rightarrow> call list \<Rightarrow> ptr \<Rightarrow> ptr \<Rightarrow> string \<Rightarrow> bool" where
  "frame_channel_present env tr dev frame channel \<longleftrightarrow>
     ret_ptr env tr (AnariMapFrame dev frame channel) \<noteq> nullptr
     \<and> (case ret_frame env tr (AnariMapFrame dev frame channel) of
           (w, h, ty) \<Rightarrow> channel_size env w h ty) \<noteq> 0"

text \<open>The requests whose body starts with a device handle, and those among them whose
  handler checks the object handle together with the device handle.\<close>

definition consumes_device_handle :: "MessageType \<Rightarrow> bool" where
  "consumes_device_handle ty \<longleftrightarrow>
     ty \<in> {NewObject, NewArray, SetParam, UnsetParam, UnsetAllParams, CommitParams, Release,
           Retain, MapArray, UnmapArray, RenderFrame, FrameReady, GetProperty,
           GetObjectSubtypes, GetObjectInfo, GetParameterInfo}"

definition checks_object_handle :: "MessageType \<Rightarrow> bool" where
  "checks_object_handle ty \<longleftrightarrow>
     ty \<in> {SetParam, UnsetParam, UnsetAllParams, CommitParams, Release, Retain, MapArray,
           UnmapArray}"


text \<open>The request was dropped: the handler returned with the server as it was, or the
  wire codec reported a read past the end of the body.\<close>

abbreviation dropped :: "Server \<Rightarrow> outcome \<Rightarrow> bool" where
  "dropped s r \<equiv> r = Returned s \<or> r = Faulted ReadPastEnd"

subsection \<open>A concrete session\<close>

text \<open>
  A resource manager after \<^verbatim>\<open>registerDevice\<close> of the backend device 100 (handle 1) and
  \<^verbatim>\<open>registerObject\<close> of two surfaces, 170 and 187, under the client handles 1 and 2;
  a one-dimensional array of two surfaces; a backend whose every call returns the pointer
  4096, whose frames are 1 x 1 pixels (sRGB colour, float depth) and whose memory holds the
  byte 7 everywhere; both codecs on both sides.
\<close>

definition example_rm :: ResourceManager where
  "example_rm =
     \<lparr>nextDeviceHandle = 2, anariDevices = [0, 100],
      serverObjects = [[], [ServerObject_default,
         \<lparr>so_device = 100, so_handle = 170, so_type = ANARI_SURFACE\<rparr>,
         \<lparr>so_device = 100, so_handle = 187, so_type = ANARI_SURFACE\<rparr>]],
      serverArrays = [[], []]\<rparr>"

definition example_info :: ArrayInfo where
  "example_info =
     \<lparr>ai_type = ANARI_ARRAY1D, elementType = ANARI_SURFACE,
      numItems1 = 2, numItems2 = 0, numItems3 = 0\<rparr>"

definition example_env :: env where
  "example_env =
     \<lparr>isObject = (\<lambda>t. t = ANARI_SURFACE),
      sizeOf = (\<lambda>t. if t = ANARI_UFIXED8_RGBA_SRGB \<or> t = ANARI_FLOAT32 then 4 else 8),
      typeOfWire = (\<lambda>w. if w = 151 then ANARI_DATA_TYPE_LIST
                         else if w = 504 then ANARI_ARRAY1D
                         else if w = 515 then ANARI_SURFACE else ANARI_OTHER w),
      wireOfType = (\<lambda>t. case t of ANARI_OTHER w \<Rightarrow> w | ANARI_DATA_TYPE_LIST \<Rightarrow> 151
                         | ANARI_ARRAY1D \<Rightarrow> 504 | ANARI_SURFACE \<Rightarrow> 515
                         | ANARI_FLOAT32 \<Rightarrow> 1068 | ANARI_UFIXED8_RGBA_SRGB \<Rightarrow> 2003 | _ \<Rightarrow> 0),
      anari_wait = 1,
      ret_ptr = (\<lambda>tr c. 4096),
      ret_int = (\<lambda>tr c. 1),
      ret_frame = (\<lambda>tr c. case c of
                     AnariMapFrame dev frame channel \<Rightarrow>
                       if channel = ''channel.color'' then (1, 1, ANARI_UFIXED8_RGBA_SRGB)
                       else (1, 1, ANARI_FLOAT32)
                   | _ \<Rightarrow> (0, 0, ANARI_UNKNOWN)),
      ret_value = (\<lambda>tr c i. 0),
      mem = (\<lambda>tr p. 7),
      mem_string = (\<lambda>tr p. []),
      write_StringList = (\<lambda>tr p. []),
      write_ParameterList = (\<lambda>tr p. []),
      serverCompression = \<lparr>hasTurboJPEG = True, hasSNAPPY = True\<rparr>,
      getMaxCompressedBufferSizeTurboJPEG = (\<lambda>options. 1024),
      compressTurboJPEG = (\<lambda>tr p options. Some [1, 2, 3]),
      getMaxCompressedBufferSizeSNAPPY = (\<lambda>n. 1024),
      compressSNAPPY = (\<lambda>tr p n. Some [9])\<rparr>"

definition example_server :: Server where
  "example_server =
     \<lparr>client_compression = \<lparr>hasTurboJPEG = True, hasSNAPPY = True\<rparr>,
      resourceManager = example_rm, queue = [], calls = [], stopped = False\<rparr>"

section \<open>Properties of the resource manager\<close>

lemma length_resize: "length (resize xs n d) = n"
  by (simp add: resize_def)

lemma registerDevice_lengths:
  assumes "registerDevice dev rm = Inr (h, rm')"
  shows "tables_aligned rm'" and "length (anariDevices rm) \<le> length (anariDevices rm')"
  using assms
  by (auto simp: registerDevice_def Let_def tables_aligned_def length_resize split: if_splits)

lemma registerObject_lengths:
  assumes "registerObject d obj p ty rm = Inr rm'"
  shows "length (anariDevices rm') = length (anariDevices rm)
    \<and> length (serverObjects rm') = length (serverObjects rm)
    \<and> length (serverArrays rm') = length (serverArrays rm)
    \<and> unat d < length (anariDevices rm)"
  using assms
  by (auto simp: registerObject_def Let_def split: if_splits)

lemma registerArray_lengths:
  assumes "registerArray d obj p info rm = Inr rm'"
  shows "length (anariDevices rm') = length (anariDevices rm)
    \<and> length (serverObjects rm') = length (serverObjects rm)
    \<and> length (serverArrays rm') = length (serverArrays rm)
    \<and> unat d < length (anariDevices rm)"
proof -
  from assms obtain rm1 where r: "registerObject d obj p (ai_type info) rm = Inr rm1"
    by (auto simp: registerArray_def split: sum.splits)
  with assms have "length (anariDevices rm') = length (anariDevices rm1)
    \<and> length (serverObjects rm') = length (serverObjects rm1)
    \<and> length (serverArrays rm') = length (serverArrays rm1)"
    by (auto simp: registerArray_def Let_def split: if_splits)
  with registerObject_lengths[OF r] show ?thesis by simp
qed

lemma rm_step_aligned:
  assumes "rm_step op rm = Inr (hs, rm')" and "tables_aligned rm"
  shows "tables_aligned rm' \<and> length (anariDevices rm) \<le> length (anariDevices rm')
     \<and> (\<forall>(d, obj) \<in> set (registered_pairs [op]). unat d < length (anariDevices rm'))"
proof (cases op)
  case (RegisterDevice dev)
  with assms obtain h where "registerDevice dev rm = Inr (h, rm')"
    by (auto split: sum.splits)
  from registerDevice_lengths[OF this] RegisterDevice show ?thesis by simp
next
  case (RegisterObject d obj p ty)
  with assms have "registerObject d obj p ty rm = Inr rm'"
    by (auto split: sum.splits)
  from registerObject_lengths[OF this] RegisterObject assms(2) show ?thesis
    by (simp add: tables_aligned_def)
next
  case (RegisterArray d obj p info)
  with assms have "registerArray d obj p info rm = Inr rm'"
    by (auto split: sum.splits)
  from registerArray_lengths[OF this] RegisterArray assms(2) show ?thesis
    by (simp add: tables_aligned_def)
qed (use assms in auto)

lemma registered_pairs_Cons:
  "set (registered_pairs (op # ops)) = set (registered_pairs [op]) \<union> set (registered_pairs ops)"
  by (cases op) simp_all

lemma rm_run_aligned:
  assumes "rm_run ops rm = Inr (hs, rm')" and "tables_aligned rm"
  shows "tables_aligned rm' \<and> length (anariDevices rm) \<le> length (anariDevices rm')
     \<and> (\<forall>(d, obj) \<in> set (registered_pairs ops). unat d < length (anariDevices rm'))"
  using assms
proof (induction ops arbitrary: rm hs)
  case Nil
  then show ?case by simp
next
  case (Cons op ops)
  from Cons.prems(1) obtain hs1 rm1 hs2 where
    s: "rm_step op rm = Inr (hs1, rm1)" and r: "rm_run ops rm1 = Inr (hs2, rm')"
    by (auto split: sum.splits)
  from rm_step_aligned[OF s Cons.prems(2)] have
    a1: "tables_aligned rm1" and l1: "length (anariDevices rm) \<le> length (anariDevices rm1)"
    and p1: "\<forall>(d, obj) \<in> set (registered_pairs [op]). unat d < length (anariDevices rm1)"
    by auto
  from Cons.IH[OF r a1] have
    a2: "tables_aligned rm'" and l2: "length (anariDevices rm1) \<le> length (anariDevices rm')"
    and p2: "\<forall>(d, obj) \<in> set (registered_pairs ops). unat d < length (anariDevices rm')"
    by auto
  from p1 l2 have "\<forall>(d, obj) \<in> set (registered_pairs [op]). unat d < length (anariDevices rm')"
    by fastforce
  with a2 l1 l2 p2 registered_pairs_Cons[of op ops] show ?case
    by (simp del: registered_pairs.simps) blast
qed

lemma rm_run_append:
  "rm_run (ops1 @ ops2) rm = Inr (hs, rm2) \<Longrightarrow>
   \<exists>hs1 rm1 hs2. rm_run ops1 rm = Inr (hs1, rm1) \<and> rm_run ops2 rm1 = Inr (hs2, rm2)
      \<and> hs = hs1 @ hs2"
proof (induction ops1 arbitrary: rm hs)
  case Nil then show ?case by simp
next
  case (Cons op ops1)
  from Cons.prems obtain hs1 rm1 hs2 where
    s: "rm_step op rm = Inr (hs1, rm1)" and r: "rm_run (ops1 @ ops2) rm1 = Inr (hs2, rm2)"
    and h: "hs = hs1 @ hs2"
    by (auto split: sum.splits)
  from Cons.IH[OF r] s h show ?case by auto
qed

lemma init_aligned: "tables_aligned ResourceManager_init"
  by (simp add: tables_aligned_def ResourceManager_init_def)

text \<open>
  C10. Take any sequence of resource-manager operations, run from a fresh manager, that
  stays within the vectors, and any point \<open>ops1\<close> inside it. There and at the end the three
  top-level tables \<^verbatim>\<open>anariDevices\<close>, \<^verbatim>\<open>serverObjects\<close> and \<^verbatim>\<open>serverArrays\<close> have the same
  length; that length at the end is at least the length at the earlier point; and every
  (device, object) pair that was registered has its device index strictly below it.
\<close>

theorem tables_aligned_and_growing:
  assumes "rm_run (ops1 @ ops2) ResourceManager_init = Inr (hs, rm2)"
  shows "\<exists>hs1 rm1. rm_run ops1 ResourceManager_init = Inr (hs1, rm1)
           \<and> tables_aligned rm1 \<and> tables_aligned rm2
           \<and> length (anariDevices rm1) \<le> length (anariDevices rm2)
           \<and> (\<forall>(d, obj) \<in> set (registered_pairs (ops1 @ ops2)).
                 unat d < length (anariDevices rm2))"
proof -
  from rm_run_append[OF assms] obtain hs1 rm1 hs2 where
    r1: "rm_run ops1 ResourceManager_init = Inr (hs1, rm1)"
    and r2: "rm_run ops2 rm1 = Inr (hs2, rm2)"
    by blast
  from rm_run_aligned[OF r1 init_aligned] have a1: "tables_aligned rm1" by simp
  from rm_run_aligned[OF r2 a1] have "length (anariDevices rm1) \<le> length (anariDevices rm2)"
    by simp
  moreover from rm_run_aligned[OF assms init_aligned] have "tables_aligned rm2"
     "\<forall>(d, obj) \<in> set (registered_pairs (ops1 @ ops2)). unat d < length (anariDevices rm2)"
    by auto
  ultimately show ?thesis using r1 a1 by blast
qed

theorem tables_aligned_and_growing_witness:
  "rm_run ([RegisterDevice 100, RegisterObject 1 2 200 ANARI_CAMERA]
           @ [RegisterDevice 101,
              RegisterArray 2 0 300 \<lparr>ai_type = ANARI_ARRAY1D, elementType = ANARI_FLOAT32,
                 numItems1 = 4, numItems2 = 0, numItems3 = 0\<rparr>, GetDevice 1])
       ResourceManager_init
     = Inr ([1, 2],
         \<lparr>nextDeviceHandle = 3, anariDevices = [0, 100, 101],
          serverObjects = [[], [ServerObject_default, ServerObject_default,
             \<lparr>so_device = 100, so_handle = 200, so_type = ANARI_CAMERA\<rparr>],
             [\<lparr>so_device = 101, so_handle = 300, so_type = ANARI_ARRAY1D\<rparr>]],
          serverArrays = [[], [], [\<lparr>ai_type = ANARI_ARRAY1D, elementType = ANARI_FLOAT32,
                 numItems1 = 4, numItems2 = 0, numItems3 = 0\<rparr>]]\<rparr>)
   \<and> (\<exists>hs1 rm1. rm_run [RegisterDevice 100, RegisterObject 1 2 200 ANARI_CAMERA]
                    ResourceManager_init = Inr (hs1, rm1)
         \<and> tables_aligned rm1 \<and> length (anariDevices rm1) \<le> 3)"
proof -
  have r: "rm_run ([RegisterDevice 100, RegisterObject 1 2 200 ANARI_CAMERA]
           @ [RegisterDevice 101,
              RegisterArray 2 0 300 \<lparr>ai_type = ANARI_ARRAY1D, elementType = ANARI_FLOAT32,
                 numItems1 = 4, numItems2 = 0, numItems3 = 0\<rparr>, GetDevice 1])
       ResourceManager_init
     = Inr ([1, 2],
         \<lparr>nextDeviceHandle = 3, anariDevices = [0, 100, 101],
          serverObjects = [[], [ServerObject_default, ServerObject_default,
             \<lparr>so_device = 100, so_handle = 200, so_type = ANARI_CAMERA\<rparr>],
             [\<lparr>so_device = 101, so_handle = 300, so_type = ANARI_ARRAY1D\<rparr>]],
          serverArrays = [[], [], [\<lparr>ai_type = ANARI_ARRAY1D, elementType = ANARI_FLOAT32,
                 numItems1 = 4, numItems2 = 0, numItems3 = 0\<rparr>]]\<rparr>)"
    by code_simp
  from tables_aligned_and_growing[OF r] obtain hs1 rm1 where
    a: "rm_run [RegisterDevice 100, RegisterObject 1 2 200 ANARI_CAMERA]
          ResourceManager_init = Inr (hs1, rm1)"
    and b: "tables_aligned rm1" and c: "length (anariDevices rm1) \<le> length [0, 100, 101 :: ptr]"
    by auto
  from c have "length (anariDevices rm1) \<le> 3" by simp
  with a b have "\<exists>hs1 rm1. rm_run [RegisterDevice 100, RegisterObject 1 2 200 ANARI_CAMERA]
                    ResourceManager_init = Inr (hs1, rm1)
         \<and> tables_aligned rm1 \<and> length (anariDevices rm1) \<le> 3"
    by blast
  with r show ?thesis by blast
qed

lemma dev_inv_init: "dev_inv [] ResourceManager_init"
  by (simp add: dev_inv_def ResourceManager_init_def)

lemma unat_plus_one_cases:
  fixes h :: "64 word"
  shows "unat (h + 1) = (if unat h = 2 ^ 64 - 1 then 0 else Suc (unat h))"
  using unsigned_less[of h, where 'a = nat] by (simp add: unat_plus_if')

lemma registerDevice_inv:
  assumes "registerDevice dev rm = Inr (h, rm')" and "dev_inv ds rm"
  shows "dev_inv (ds @ [dev]) rm' \<and> h = of_nat (Suc (length ds)) \<and> unat h = Suc (length ds)"
proof -
  let ?h = "nextDeviceHandle rm"
  from assms(2) have u: "unat ?h = Suc (length ds)" by (simp add: dev_inv_def)
  then have hh: "?h = of_nat (Suc (length ds))" by (metis of_nat_unat ucast_id)
  from assms(2) have ad: "anariDevices rm = (if ds = [] then [] else nullptr # ds)"
    by (simp add: dev_inv_def)
  have nowrap: "unat ?h \<noteq> 2 ^ 64 - 1"
  proof
    assume w: "unat ?h = 2 ^ 64 - 1"
    then have "unat (?h + 1) = 0" by (simp add: unat_plus_one_cases)
    with assms(1) u ad show False
      by (auto simp: registerDevice_def Let_def resize_def split: if_splits)
  qed
  then have u1: "unat (?h + 1) = Suc (Suc (length ds))"
    using u by (simp add: unat_plus_one_cases)
  from assms(1) have h: "h = ?h" and rm': "nextDeviceHandle rm' = ?h + 1"
    "anariDevices rm' =
       (resize (anariDevices rm) (max (length (anariDevices rm)) (unat (?h + 1))) nullptr)
         [unat ?h := dev]"
    by (auto simp: registerDevice_def Let_def split: if_splits)
  have "anariDevices rm' = nullptr # ds @ [dev]"
    using rm'(2) u u1 ad
    by (cases "ds = []") (simp_all add: resize_def numeral_2_eq_2 list_update_append)
  with rm'(1) u1 h hh u show ?thesis by (simp add: dev_inv_def)
qed

lemma registerObject_devs:
  assumes "registerObject d obj p ty rm = Inr rm'"
  shows "anariDevices rm' = anariDevices rm \<and> nextDeviceHandle rm' = nextDeviceHandle rm"
  using assms by (auto simp: registerObject_def Let_def split: if_splits)

lemma registerArray_devs:
  assumes "registerArray d obj p info rm = Inr rm'"
  shows "anariDevices rm' = anariDevices rm \<and> nextDeviceHandle rm' = nextDeviceHandle rm"
proof -
  from assms obtain rm1 where r: "registerObject d obj p (ai_type info) rm = Inr rm1"
    by (auto simp: registerArray_def split: sum.splits)
  with assms have
    "anariDevices rm' = anariDevices rm1 \<and> nextDeviceHandle rm' = nextDeviceHandle rm1"
    by (auto simp: registerArray_def Let_def split: if_splits)
  with registerObject_devs[OF r] show ?thesis by simp
qed

lemma rm_step_inv:
  assumes "rm_step op rm = Inr (hs, rm')" and "dev_inv ds rm"
  shows "dev_inv (ds @ registered_devices [op]) rm'
     \<and> hs = map (\<lambda>i. of_nat (Suc i))
              [length ds..<length ds + length (registered_devices [op])]"
proof (cases op)
  case (RegisterDevice dev)
  with assms obtain h where r: "registerDevice dev rm = Inr (h, rm')" and hs: "hs = [h]"
    by (auto split: sum.splits)
  from registerDevice_inv[OF r assms(2)] RegisterDevice hs show ?thesis by simp
next
  case (RegisterObject d obj p ty)
  with assms have "registerObject d obj p ty rm = Inr rm'" and "hs = []"
    by (auto split: sum.splits)
  with registerObject_devs[of d obj p ty rm rm'] RegisterObject assms(2) show ?thesis
    by (simp add: dev_inv_def)
next
  case (RegisterArray d obj p info)
  with assms have "registerArray d obj p info rm = Inr rm'" and "hs = []"
    by (auto split: sum.splits)
  with registerArray_devs[of d obj p info rm rm'] RegisterArray assms(2) show ?thesis
    by (simp add: dev_inv_def)
qed (use assms in auto)

lemma registered_devices_Cons:
  "registered_devices (op # ops) = registered_devices [op] @ registered_devices ops"
  by (cases op) simp_all

lemma rm_run_inv:
  assumes "rm_run ops rm = Inr (hs, rm')" and "dev_inv ds rm"
  shows "dev_inv (ds @ registered_devices ops) rm'
     \<and> hs = map (\<lambda>i. of_nat (Suc i))
              [length ds..<length ds + length (registered_devices ops)]"
  using assms
proof (induction ops arbitrary: rm hs ds)
  case Nil
  then show ?case by simp
next
  case (Cons op ops)
  from Cons.prems(1) obtain hs1 rm1 hs2 where
    s: "rm_step op rm = Inr (hs1, rm1)" and r: "rm_run ops rm1 = Inr (hs2, rm')"
    and h: "hs = hs1 @ hs2"
    by (auto split: sum.splits)
  let ?d1 = "registered_devices [op]"
  from rm_step_inv[OF s Cons.prems(2)] have
    i1: "dev_inv (ds @ ?d1) rm1"
    and h1: "hs1 = map (\<lambda>i. of_nat (Suc i)) [length ds..<length ds + length ?d1]"
    by auto
  from Cons.IH[OF r i1] have
    i2: "dev_inv ((ds @ ?d1) @ registered_devices ops) rm'"
    and h2: "hs2 = map (\<lambda>i. of_nat (Suc i))
               [length (ds @ ?d1)..<length (ds @ ?d1) + length (registered_devices ops)]"
    by auto
  have e: "registered_devices (op # ops) = ?d1 @ registered_devices ops"
    by (rule registered_devices_Cons)
  have "[length ds..<length ds + length (?d1 @ registered_devices ops)]
      = [length ds..<length ds + length ?d1]
        @ [length ds + length ?d1..<length ds + length ?d1 + length (registered_devices ops)]"
    using upt_add_eq_append[of "length ds" "length ds + length ?d1"
            "length (registered_devices ops)"]
    by (simp add: add.assoc)
  with h h1 h2 have "hs = map (\<lambda>i. of_nat (Suc i))
       [length ds..<length ds + length (?d1 @ registered_devices ops)]"
    by simp
  with i2 e show ?case by (simp del: registered_devices.simps)
qed

text \<open>
  C5. Run any sequence of resource-manager operations from a fresh manager, staying within
  the vectors. The handles that \<^verbatim>\<open>registerDevice\<close> returned are 1, 2, 3, ... in the order of
  the calls, so they start at 1 and increase strictly; \<^verbatim>\<open>getDevice\<close> of the \<open>i\<close>-th returned
  handle is the \<open>i\<close>-th registered backend reference; \<^verbatim>\<open>getDevice(0)\<close> is null; and
  \<^verbatim>\<open>getDevice\<close> is null for every handle that was not returned.
\<close>

theorem device_handles:
  assumes "rm_run ops ResourceManager_init = Inr (hs, rm)"
  shows "hs = map (\<lambda>i. of_nat (Suc i)) [0..<length (registered_devices ops)]
    \<and> (\<forall>i j. i < j \<and> j < length hs \<longrightarrow> hs ! i < hs ! j)
    \<and> (\<forall>i < length hs. getDevice rm (hs ! i) = registered_devices ops ! i)
    \<and> getDevice rm 0 = nullptr
    \<and> (\<forall>h. h \<notin> set hs \<longrightarrow> getDevice rm h = nullptr)"
proof -
  let ?ds = "registered_devices ops"
  from rm_run_inv[OF assms dev_inv_init] have
    inv: "dev_inv ?ds rm" and hs: "hs = map (\<lambda>i. of_nat (Suc i)) [0..<length ?ds]"
    by auto
  from inv have bound: "Suc (length ?ds) < 2 ^ 64"
    using unsigned_less[of "nextDeviceHandle rm", where 'a = nat] by (simp add: dev_inv_def)
  from inv have ad: "anariDevices rm = (if ?ds = [] then [] else nullptr # ?ds)"
    by (simp add: dev_inv_def)
  have un: "unat (of_nat (Suc i) :: 64 word) = Suc i" if "i < length ?ds" for i
    using that bound unat_of_nat[of "Suc i", where 'a = 64] by (simp del: of_nat_Suc)
  have nth: "hs ! i = of_nat (Suc i)" if "i < length ?ds" for i
    using that hs by (simp del: of_nat_Suc)
  have len: "length hs = length ?ds" using hs by simp
  have mono: "\<forall>i j. i < j \<and> j < length hs \<longrightarrow> hs ! i < hs ! j"
    using len by (auto simp: nth un word_less_nat_alt simp del: of_nat_Suc)
  have get: "\<forall>i < length hs. getDevice rm (hs ! i) = ?ds ! i"
    using len ad by (auto simp: nth un getDevice_def simp del: of_nat_Suc)
  have zero: "getDevice rm 0 = nullptr"
    using ad by (simp add: getDevice_def)
  have other: "getDevice rm h = nullptr" if "h \<notin> set hs" for h
  proof (cases "unat h = 0 \<or> unat h > length ?ds")
    case True
    then show ?thesis using ad zero by (auto simp: getDevice_def unat_eq_0)
  next
    case False
    then obtain i where i: "unat h = Suc i" "i < length ?ds"
      by (cases "unat h") auto
    then have "h = of_nat (Suc i)" by (metis of_nat_unat ucast_id)
    with i(2) hs have "h \<in> set hs" by (auto simp del: of_nat_Suc)
    with that show ?thesis by simp
  qed
  from hs mono get zero other show ?thesis by blast
qed

theorem device_handles_witness:
  "rm_run [RegisterDevice 100, RegisterObject 1 2 200 ANARI_CAMERA, RegisterDevice 101]
       ResourceManager_init
     = Inr ([1, 2],
         \<lparr>nextDeviceHandle = 3, anariDevices = [0, 100, 101],
          serverObjects = [[], [ServerObject_default, ServerObject_default,
             \<lparr>so_device = 100, so_handle = 200, so_type = ANARI_CAMERA\<rparr>], []],
          serverArrays = [[], [], []]\<rparr>)
   \<and> getDevice \<lparr>nextDeviceHandle = 3, anariDevices = [0, 100, 101],
          serverObjects = [[], [ServerObject_default, ServerObject_default,
             \<lparr>so_device = 100, so_handle = 200, so_type = ANARI_CAMERA\<rparr>], []],
          serverArrays = [[], [], []]\<rparr> 7 = nullptr
   \<and> handleMessage example_env Server_init Read NewDevice
        (enc_string ''default'' @ [1, 1]) False
     = Returned \<lparr>client_compression = \<lparr>hasTurboJPEG = True, hasSNAPPY = True\<rparr>,
         resourceManager = \<lparr>nextDeviceHandle = 2, anariDevices = [0, 4096],
            serverObjects = [[], []], serverArrays = [[], []]\<rparr>,
         queue = [(DeviceHandle, enc64 1 @ [1, 1])],
         calls = [AnariNewDevice ''default''], stopped = False\<rparr>"
proof -
  have nd: "handleMessage example_env Server_init Read NewDevice
        (enc_string ''default'' @ [1, 1]) False
     = Returned \<lparr>client_compression = \<lparr>hasTurboJPEG = True, hasSNAPPY = True\<rparr>,
         resourceManager = \<lparr>nextDeviceHandle = 2, anariDevices = [0, 4096],
            serverObjects = [[], []], serverArrays = [[], []]\<rparr>,
         queue = [(DeviceHandle, enc64 1 @ [1, 1])],
         calls = [AnariNewDevice ''default''], stopped = False\<rparr>"
    by code_simp
  have r: "rm_run [RegisterDevice 100, RegisterObject 1 2 200 ANARI_CAMERA, RegisterDevice 101]
       ResourceManager_init
     = Inr ([1, 2],
         \<lparr>nextDeviceHandle = 3, anariDevices = [0, 100, 101],
          serverObjects = [[], [ServerObject_default, ServerObject_default,
             \<lparr>so_device = 100, so_handle = 200, so_type = ANARI_CAMERA\<rparr>], []],
          serverArrays = [[], [], []]\<rparr>)"
    by code_simp
  from device_handles[OF r] have
    "getDevice \<lparr>nextDeviceHandle = 3, anariDevices = [0, 100, 101],
          serverObjects = [[], [ServerObject_default, ServerObject_default,
             \<lparr>so_device = 100, so_handle = 200, so_type = ANARI_CAMERA\<rparr>], []],
          serverArrays = [[], [], []]\<rparr> 7 = nullptr"
    by simp
  with r nd show ?thesis by blast
qed

section \<open>Properties of the parameter store\<close>

lemma find_if_le: "find_if P xs \<le> length xs"
  by (induction xs) auto

lemma find_if_nth: "find_if P xs < length xs \<Longrightarrow> P (xs ! find_if P xs)"
  by (induction xs) (auto split: if_splits)

lemma find_if_update:
  "find_if P xs < length xs \<Longrightarrow> P y \<Longrightarrow> find_if P (xs[find_if P xs := y]) = find_if P xs"
  by (induction xs) (auto split: if_splits)

lemma find_if_snoc:
  "find_if P xs = length xs \<Longrightarrow> P y \<Longrightarrow> find_if P (xs @ [y]) = length xs"
  by (induction xs) (auto split: if_splits)

lemma filter_update_found:
  "find_if P xs < length xs \<Longrightarrow> P y \<Longrightarrow>
   length (filter P (xs[find_if P xs := y])) = length (filter P xs)"
  by (induction xs) (auto split: if_splits)

lemma filter_not_found: "find_if P xs = length xs \<Longrightarrow> filter P xs = []"
  by (induction xs) (auto split: if_splits)

lemma filter_found: "find_if P xs < length xs \<Longrightarrow> filter P xs \<noteq> []"
  by (induction xs) (auto split: if_splits)

lemma setParam_found:
  assumes "find_if (\<lambda>p. fst p = name) ps < length ps"
  shows "setParam name ty v ps = ps[find_if (\<lambda>p. fst p = name) ps := (name, AnariAny ty v)]"
  using assms find_if_nth[of "\<lambda>p. fst p = name" ps]
  by (simp add: setParam_def findParam_def Let_def)

lemma setParam_not_found:
  assumes "find_if (\<lambda>p. fst p = name) ps = length ps"
  shows "setParam name ty v ps = ps @ [(name, AnariAny ty v)]"
  using assms by (simp add: setParam_def findParam_def Let_def)

text \<open>
  C9. Setting parameter \<open>name\<close> to one value and then to a second leaves \<^verbatim>\<open>m_params\<close> as
  setting it to the second value alone does; the stored value is the second one; the second
  \<^verbatim>\<open>setParam\<close> adds no entry for \<open>name\<close>; and after the first \<^verbatim>\<open>setParam\<close> there are as many
  entries for \<open>name\<close> as before, or one if there was none.
\<close>

theorem setParam_twice:
  "setParam name ty2 v2 (setParam name ty1 v1 m_params) = setParam name ty2 v2 m_params
   \<and> getParamDirect (setParam name ty2 v2 (setParam name ty1 v1 m_params)) name = AnariAny ty2 v2
   \<and> length (filter (\<lambda>p. fst p = name) (setParam name ty2 v2 (setParam name ty1 v1 m_params)))
       = length (filter (\<lambda>p. fst p = name) (setParam name ty1 v1 m_params))
   \<and> length (filter (\<lambda>p. fst p = name) (setParam name ty1 v1 m_params))
       = max 1 (length (filter (\<lambda>p. fst p = name) m_params))"
proof -
  let ?P = "\<lambda>p::Param. fst p = name"
  let ?i = "find_if ?P m_params"
  have cases: "?i < length m_params \<or> ?i = length m_params"
    using find_if_le[of ?P m_params] by auto
  show ?thesis
  proof (cases "?i < length m_params")
    case True
    have s1: "setParam name ty v m_params = m_params[?i := (name, AnariAny ty v)]" for ty v
      using True by (rule setParam_found)
    have i1: "find_if ?P (m_params[?i := (name, AnariAny ty1 v1)]) = ?i"
      using True by (simp add: find_if_update)
    have s2: "setParam name ty2 v2 (m_params[?i := (name, AnariAny ty1 v1)])
        = m_params[?i := (name, AnariAny ty2 v2)]"
      using True i1 setParam_found[of name "m_params[?i := (name, AnariAny ty1 v1)]" ty2 v2]
      by simp
    have i2: "find_if ?P (m_params[?i := (name, AnariAny ty2 v2)]) = ?i"
      using True by (simp add: find_if_update)
    have g: "getParamDirect (m_params[?i := (name, AnariAny ty2 v2)]) name = AnariAny ty2 v2"
      using True i2 by (simp add: getParamDirect_def findParam_const_def Let_def)
    have c: "length (filter ?P (m_params[?i := (name, AnariAny ty v)])) = length (filter ?P m_params)"
      for ty v
      using True by (simp add: filter_update_found)
    have "1 \<le> length (filter ?P m_params)"
      using filter_found[OF True] by (cases "filter ?P m_params") auto
    with s1 s2 g c show ?thesis by (simp add: max_def)
  next
    case False
    with cases have nf: "?i = length m_params" by simp
    have s1: "setParam name ty v m_params = m_params @ [(name, AnariAny ty v)]" for ty v
      using nf by (rule setParam_not_found)
    have i1: "find_if ?P (m_params @ [(name, AnariAny ty v)]) = length m_params" for ty v
      using nf by (simp add: find_if_snoc)
    have s2: "setParam name ty2 v2 (m_params @ [(name, AnariAny ty1 v1)])
        = m_params @ [(name, AnariAny ty2 v2)]"
      using i1[of ty1 v1] setParam_found[of name "m_params @ [(name, AnariAny ty1 v1)]" ty2 v2]
      by simp
    have g: "getParamDirect (m_params @ [(name, AnariAny ty2 v2)]) name = AnariAny ty2 v2"
      using i1[of ty2 v2] by (simp add: getParamDirect_def findParam_const_def Let_def)
    from s1 s2 g filter_not_found[OF nf] show ?thesis by simp
  qed
qed

section \<open>Properties of the wire codec\<close>

lemma length_enc_le: "length (enc_le n w) = n"
  by (simp add: enc_le_def)

lemma bit_dec_le:
  "bit (dec_le bs :: 'a::len word) n \<longleftrightarrow>
     n < LENGTH('a) \<and> n div 8 < length bs \<and> bit (bs ! (n div 8)) (n mod 8)"
proof (induction bs arbitrary: n)
  case Nil
  then show ?case by simp
next
  case (Cons b bs)
  show ?case
  proof (cases "n < 8")
    case True
    then show ?thesis by (auto simp: bit_simps dest: bit_imp_le_length)
  next
    case False
    then have "n div 8 = Suc ((n - 8) div 8)" "n mod 8 = (n - 8) mod 8"
      by (simp_all add: le_div_geq le_mod_geq)
    with False show ?thesis using Cons.IH[of "n - 8"]
      by (auto simp: bit_simps dest: bit_imp_le_length)
  qed
qed

lemma dec_enc64: "dec_le (enc64 w) = (w :: 64 word)"
  apply (rule bit_word_eqI)
  apply (simp add: bit_dec_le enc_le_def bit_simps)
  apply (auto simp: bit_simps)
  done

lemma dec_enc32: "dec_le (enc32 w) = (w :: 32 word)"
  apply (rule bit_word_eqI)
  apply (simp add: bit_dec_le enc_le_def bit_simps)
  apply (auto simp: bit_simps)
  done

section \<open>Properties of the array payload translation\<close>

lemma length_set_slot:
  "8 * i + 8 \<le> length bytes \<Longrightarrow> length (set_slot bytes i w) = length bytes"
  by (simp add: set_slot_def length_enc_le)

lemma get_set_slot_same:
  "8 * i + 8 \<le> length bytes \<Longrightarrow> get_slot (set_slot bytes i w) i = Some w"
  by (simp add: get_slot_def set_slot_def length_enc_le dec_enc64)

lemma get_set_slot_other:
  assumes "8 * i + 8 \<le> length bytes" and "j \<noteq> i"
  shows "get_slot (set_slot bytes i w) j = get_slot bytes j"
proof (cases "8 * j + 8 \<le> length bytes")
  case False
  with assms show ?thesis by (simp add: get_slot_def length_set_slot)
next
  case True
  have "take 8 (drop (8 * j) (set_slot bytes i w)) = take 8 (drop (8 * j) bytes)"
  proof (cases "j < i")
    case True
    then have "8 * j + 8 \<le> 8 * i" by simp
    then show ?thesis using assms(1)
      by (auto simp: set_slot_def drop_take min_def length_enc_le)
  next
    case False
    with assms(2) have "8 * i + 8 \<le> 8 * j" by simp
    then show ?thesis using assms(1)
      by (simp add: set_slot_def length_enc_le)
  qed
  with True assms show ?thesis by (simp add: get_slot_def length_set_slot)
qed

lemma drop_set_slot:
  "8 * i + 8 \<le> length bytes \<Longrightarrow> 8 * i + 8 \<le> k \<Longrightarrow> drop k (set_slot bytes i w) = drop k bytes"
  by (simp add: set_slot_def length_enc_le)

lemma translate_loop_ok:
  assumes "translate_loop tbl n i arrayData = Inr out"
  shows "length out = length arrayData
     \<and> (\<forall>j. i \<le> j \<and> j < n \<longrightarrow>
           (\<exists>h. get_slot arrayData j = Some h \<and> unat h < length tbl
              \<and> get_slot out j = Some (so_handle (tbl ! unat h))))
     \<and> (\<forall>j < i. get_slot out j = get_slot arrayData j)
     \<and> (\<forall>k. 8 * n \<le> k \<and> 8 * i \<le> k \<longrightarrow> drop k out = drop k arrayData)"
  using assms
proof (induction tbl n i arrayData arbitrary: out rule: translate_loop.induct)
  case (1 tbl n i arrayData)
  show ?case
  proof (cases "i < n")
    case False
    with "1.prems" show ?thesis by (auto simp: translate_loop.simps)
  next
    case True
    with "1.prems" obtain h where
      g: "get_slot arrayData i = Some h" and r: "unat h < length tbl"
      and t: "translate_loop tbl n (Suc i) (set_slot arrayData i (so_handle (tbl ! unat h))) = Inr out"
      by (subst (asm) translate_loop.simps) (auto split: option.splits if_splits)
    let ?d = "set_slot arrayData i (so_handle (tbl ! unat h))"
    from g have inr: "8 * i + 8 \<le> length arrayData"
      by (simp add: get_slot_def split: if_splits)
    from "1.IH"[OF True g r t] have
      len: "length out = length ?d"
      and later: "\<forall>j. Suc i \<le> j \<and> j < n \<longrightarrow>
           (\<exists>h'. get_slot ?d j = Some h' \<and> unat h' < length tbl
              \<and> get_slot out j = Some (so_handle (tbl ! unat h')))"
      and earlier: "\<forall>j < Suc i. get_slot out j = get_slot ?d j"
      and tail: "\<forall>k. 8 * n \<le> k \<and> 8 * Suc i \<le> k \<longrightarrow> drop k out = drop k ?d"
      by auto
    have a: "length out = length arrayData"
      using len inr by (simp add: length_set_slot)
    have b: "\<exists>h'. get_slot arrayData j = Some h' \<and> unat h' < length tbl
              \<and> get_slot out j = Some (so_handle (tbl ! unat h'))"
      if "i \<le> j" "j < n" for j
    proof (cases "j = i")
      case True
      from earlier have "get_slot out i = get_slot ?d i" by simp
      with inr g r True show ?thesis by (simp add: get_set_slot_same)
    next
      case False
      with that have "Suc i \<le> j" by simp
      with later that obtain h' where "get_slot ?d j = Some h'" "unat h' < length tbl"
        "get_slot out j = Some (so_handle (tbl ! unat h'))" by blast
      with inr False show ?thesis by (simp add: get_set_slot_other)
    qed
    have c: "get_slot out j = get_slot arrayData j" if "j < i" for j
      using earlier that inr by (simp add: get_set_slot_other)
    have d: "drop k out = drop k arrayData" if "8 * n \<le> k" "8 * i \<le> k" for k
    proof -
      from True that have k: "8 * i + 8 \<le> k" by simp
      with tail that have "drop k out = drop k ?d" by simp
      with inr k show ?thesis by (simp add: drop_set_slot)
    qed
    from a b c d show ?thesis by blast
  qed
qed

lemma read_bytes_length:
  "read_bytes n buf = Some (bs, buf') \<Longrightarrow> length bs = n"
  by (auto simp: read_bytes_def split: if_splits)


lemma slots_known_iff:
  "slots_known tbl n payload \<longleftrightarrow>
     (\<forall>i < n. \<exists>h. get_slot payload i = Some h \<and> unat h < length tbl)"
proof -
  have "(case get_slot payload i of None \<Rightarrow> False | Some h \<Rightarrow> unat h < length tbl)
      \<longleftrightarrow> (\<exists>h. get_slot payload i = Some h \<and> unat h < length tbl)" for i
    by (cases "get_slot payload i") auto
  then show ?thesis by (auto simp: slots_known_def list_all_iff)
qed

lemma translate_loop_fault: "translate_loop tbl n i arrayData = Inl e \<Longrightarrow> e = OutOfRange"
proof (induction tbl n i arrayData rule: translate_loop.induct)
  case (1 tbl n i arrayData)
  from "1.prems" show ?case
    by (subst (asm) translate_loop.simps) (auto split: if_splits option.splits intro: "1.IH")
qed

lemma translate_loop_total:
  assumes "\<forall>j. i \<le> j \<and> j < n \<longrightarrow> (\<exists>h. get_slot arrayData j = Some h \<and> unat h < length tbl)"
  shows "\<exists>out. translate_loop tbl n i arrayData = Inr out"
  using assms
proof (induction tbl n i arrayData rule: translate_loop.induct)
  case (1 tbl n i arrayData)
  show ?case
  proof (cases "i < n")
    case False
    then show ?thesis by (simp add: translate_loop.simps)
  next
    case True
    with "1.prems" obtain h where g: "get_slot arrayData i = Some h" and r: "unat h < length tbl"
      by auto
    let ?d = "set_slot arrayData i (so_handle (tbl ! unat h))"
    from g have inr: "8 * i + 8 \<le> length arrayData"
      by (simp add: get_slot_def split: if_splits)
    have "\<forall>j. Suc i \<le> j \<and> j < n \<longrightarrow> (\<exists>h. get_slot ?d j = Some h \<and> unat h < length tbl)"
      using "1.prems" inr by (auto simp: get_set_slot_other)
    from "1.IH"[OF True g r this] obtain out where "translate_loop tbl n (Suc i) ?d = Inr out" ..
    with True g r show ?thesis by (subst translate_loop.simps) simp
  qed
qed

text \<open>
  C7. Let the payload be the \<^verbatim>\<open>getSizeInBytes()\<close> bytes that \<^verbatim>\<open>translateArrayData\<close> reads from
  the message. For an element type that is not an object type the payload is returned
  unchanged. For an object type, when the device index is inside \<^verbatim>\<open>serverObjects\<close> and every
  one of the \<open>numObjects\<close> slots holds a client handle inside the per-device object table,
  the function returns a vector of the same length in which each 8-byte slot holds the
  backend reference stored in the table at that client handle, and the bytes after the
  slots are unchanged; otherwise it indexes a vector out of range. The callers hand the
  returned vector to \<^verbatim>\<open>newArray\<close> or to \<^verbatim>\<open>memcpy\<close> into the mapped array.
\<close>

theorem translateArrayData_rewrites:
  assumes "read_bytes (unat (getSizeInBytes szOf info)) buf = Some (payload, buf')"
  shows "if isObj (elementType info) then
           (if unat dev < length (serverObjects rm)
               \<and> slots_known (serverObjects rm ! unat dev)
                    (unat (numItems1 info * max 1 (numItems2 info) * max 1 (numItems3 info)))
                    payload
            then \<exists>out. translateArrayData isObj szOf rm buf dev info = Inr (out, buf')
                   \<and> length out = length payload
                   \<and> (\<forall>i < unat (numItems1 info * max 1 (numItems2 info) * max 1 (numItems3 info)).
                         get_slot out i =
                           map_option (\<lambda>h. so_handle (serverObjects rm ! unat dev ! unat h))
                             (get_slot payload i))
                   \<and> drop (8 * unat (numItems1 info * max 1 (numItems2 info)
                                      * max 1 (numItems3 info))) out
                       = drop (8 * unat (numItems1 info * max 1 (numItems2 info)
                                      * max 1 (numItems3 info))) payload
            else translateArrayData isObj szOf rm buf dev info = Inl OutOfRange)
         else translateArrayData isObj szOf rm buf dev info = Inr (payload, buf')"
proof (cases "isObj (elementType info)")
  case False
  with assms show ?thesis by (simp add: translateArrayData_def)
next
  case True
  let ?n = "unat (numItems1 info * max 1 (numItems2 info) * max 1 (numItems3 info))"
  let ?tbl = "serverObjects rm ! unat dev"
  show ?thesis
  proof (cases "unat dev < length (serverObjects rm)")
    case False
    with True assms show ?thesis by (simp add: translateArrayData_def)
  next
    case dv: True
    have unfold: "translateArrayData isObj szOf rm buf dev info =
        (case translate_loop ?tbl ?n 0 payload of Inl e \<Rightarrow> Inl e | Inr a \<Rightarrow> Inr (a, buf'))"
      using assms True dv by (simp add: translateArrayData_def Let_def)
    show ?thesis
    proof (cases "slots_known ?tbl ?n payload")
      case sk: True
      then have "\<forall>j. 0 \<le> j \<and> j < ?n \<longrightarrow>
          (\<exists>h. get_slot payload j = Some h \<and> unat h < length ?tbl)"
        by (simp add: slots_known_iff)
      from translate_loop_total[OF this] obtain out where
        tl: "translate_loop ?tbl ?n 0 payload = Inr out" ..
      from translate_loop_ok[OF tl] have
        len: "length out = length payload"
        and sl: "\<forall>j < ?n. \<exists>h. get_slot payload j = Some h \<and> unat h < length ?tbl
                  \<and> get_slot out j = Some (so_handle (?tbl ! unat h))"
        and dr: "drop (8 * ?n) out = drop (8 * ?n) payload"
        by auto
      from sl have "\<forall>i < ?n. get_slot out i =
          map_option (\<lambda>h. so_handle (?tbl ! unat h)) (get_slot payload i)"
        by fastforce
      with len dr tl unfold True dv sk show ?thesis by simp
    next
      case nk: False
      have "translate_loop ?tbl ?n 0 payload = Inl OutOfRange"
      proof (cases "translate_loop ?tbl ?n 0 payload")
        case (Inl e)
        with translate_loop_fault[OF Inl] show ?thesis by simp
      next
        case (Inr out)
        from translate_loop_ok[OF Inr] have "slots_known ?tbl ?n payload"
          by (auto simp: slots_known_iff)
        with nk show ?thesis by simp
      qed
      with unfold True dv nk show ?thesis by simp
    qed
  qed
qed

lemma example_rm_run:
  "rm_run [RegisterDevice 100, RegisterObject 1 1 170 ANARI_SURFACE,
           RegisterObject 1 2 187 ANARI_SURFACE] ResourceManager_init = Inr ([1], example_rm)"
  by code_simp

text \<open>The translation of the payload [1, 2] in the concrete session, as an array of
  surfaces and as an array of floats, and the \<^verbatim>\<open>NewArray\<close> message that carries it: the
  backend receives the translated bytes.\<close>

theorem translateArrayData_rewrites_witness:
  "read_bytes (unat (getSizeInBytes (\<lambda>t. 8) example_info)) (Buffer_of (enc64 1 @ enc64 2))
      = Some (enc64 1 @ enc64 2, \<lparr>buf_data = enc64 1 @ enc64 2, pos = 16\<rparr>)
   \<and> translateArrayData (\<lambda>t. t = ANARI_SURFACE) (\<lambda>t. 8) example_rm
        (Buffer_of (enc64 1 @ enc64 2)) 1 example_info
      = Inr (enc64 170 @ enc64 187, \<lparr>buf_data = enc64 1 @ enc64 2, pos = 16\<rparr>)
   \<and> translateArrayData (\<lambda>t. t = ANARI_SURFACE) (\<lambda>t. 8) example_rm
        (Buffer_of (enc64 1 @ enc64 2)) 1 (example_info\<lparr>elementType := ANARI_FLOAT32\<rparr>)
      = Inr (enc64 1 @ enc64 2, \<lparr>buf_data = enc64 1 @ enc64 2, pos = 16\<rparr>)
   \<and> (case handleMessage example_env example_server Read NewArray
              (enc64 1 @ enc32 504 @ enc64 3 @ enc32 515 @ enc64 2 @ enc64 0 @ enc64 0
               @ enc64 1 @ enc64 2) False of
         Returned s' \<Rightarrow>
           calls s' = [AnariNewArray1D 100 ANARI_SURFACE 2, AnariMapArray 100 4096,
                       Memcpy 4096 (enc64 170 @ enc64 187), AnariUnmapArray 100 4096]
           \<and> getServerObject (resourceManager s') 1 3
               = \<lparr>so_device = 100, so_handle = 4096, so_type = ANARI_ARRAY1D\<rparr>
           \<and> getArrayInfo (resourceManager s') 1 3 = example_info
       | _ \<Rightarrow> False)"
proof -
  have na: "(case handleMessage example_env example_server Read NewArray
              (enc64 1 @ enc32 504 @ enc64 3 @ enc32 515 @ enc64 2 @ enc64 0 @ enc64 0
               @ enc64 1 @ enc64 2) False of
         Returned s' \<Rightarrow>
           calls s' = [AnariNewArray1D 100 ANARI_SURFACE 2, AnariMapArray 100 4096,
                       Memcpy 4096 (enc64 170 @ enc64 187), AnariUnmapArray 100 4096]
           \<and> getServerObject (resourceManager s') 1 3
               = \<lparr>so_device = 100, so_handle = 4096, so_type = ANARI_ARRAY1D\<rparr>
           \<and> getArrayInfo (resourceManager s') 1 3 = example_info
       | _ \<Rightarrow> False)"
    by code_simp
  let ?B = "Buffer_of (enc64 1 @ enc64 2)"
  let ?B' = "\<lparr>buf_data = enc64 1 @ enc64 2, pos = 16\<rparr>"
  have rd: "read_bytes (unat (getSizeInBytes (\<lambda>t. 8) example_info)) ?B
      = Some (enc64 1 @ enc64 2, ?B')"
    by code_simp
  have rd2: "read_bytes (unat (getSizeInBytes (\<lambda>t. 8) (example_info\<lparr>elementType := ANARI_FLOAT32\<rparr>))) ?B
      = Some (enc64 1 @ enc64 2, ?B')"
    by code_simp
  have obj: "elementType example_info = ANARI_SURFACE"
    by (simp add: example_info_def)
  have rng: "unat (1 :: 64 word) < length (serverObjects example_rm)"
    by code_simp
  have known: "slots_known (serverObjects example_rm ! unat (1 :: 64 word))
      (unat (numItems1 example_info * max 1 (numItems2 example_info)
             * max 1 (numItems3 example_info))) (enc64 1 @ enc64 2)"
    by code_simp
  from translateArrayData_rewrites[OF rd, of "\<lambda>t. t = ANARI_SURFACE" 1 example_rm] obj rng known
  have "\<exists>out. translateArrayData (\<lambda>t. t = ANARI_SURFACE) (\<lambda>t. 8) example_rm ?B 1 example_info
         = Inr (out, ?B')"
    by auto
  moreover have "translateArrayData (\<lambda>t. t = ANARI_SURFACE) (\<lambda>t. 8) example_rm ?B 1 example_info
      = Inr (enc64 170 @ enc64 187, ?B')"
    by code_simp
  moreover from translateArrayData_rewrites[OF rd2, of "\<lambda>t. t = ANARI_SURFACE" 1 example_rm]
  have "translateArrayData (\<lambda>t. t = ANARI_SURFACE) (\<lambda>t. 8) example_rm ?B 1
           (example_info\<lparr>elementType := ANARI_FLOAT32\<rparr>) = Inr (enc64 1 @ enc64 2, ?B')"
    by (simp add: example_info_def)
  ultimately show ?thesis using rd na by blast
qed

text \<open>
  C3. In the concrete session the object table of device 1 has three slots. The sibling
  lookup \<^verbatim>\<open>getServerObject\<close> checks its subscripts and answers a null reference for the
  client handle 9. \<^verbatim>\<open>translateArrayData\<close> substitutes a null reference for the handle 0,
  which is inside the table and was never registered, but for the handle 9, which is
  outside the table, it indexes the table out of range; so does the \<^verbatim>\<open>NewArray\<close> message
  that carries this payload.
\<close>

theorem translateArrayData_unknown_handle:
  "so_handle (getServerObject example_rm 1 9) = nullptr
   \<and> translateArrayData (\<lambda>t. t = ANARI_SURFACE) (\<lambda>t. 8) example_rm
        (Buffer_of (enc64 1 @ enc64 0)) 1 example_info
      = Inr (enc64 170 @ enc64 0, \<lparr>buf_data = enc64 1 @ enc64 0, pos = 16\<rparr>)
   \<and> translateArrayData (\<lambda>t. t = ANARI_SURFACE) (\<lambda>t. 8) example_rm
        (Buffer_of (enc64 1 @ enc64 9)) 1 example_info
      = Inl OutOfRange
   \<and> handleMessage example_env example_server Read NewArray
        (enc64 1 @ enc32 504 @ enc64 3 @ enc32 515 @ enc64 2 @ enc64 0 @ enc64 0
         @ enc64 1 @ enc64 9) False
      = Faulted OutOfRange"
  by code_simp

section \<open>Properties of the dispatcher\<close>

lemma read64_Buffer_of:
  "read64 (Buffer_of body) =
     (if 8 \<le> length body then Some (dec_le (take 8 body), \<lparr>buf_data = body, pos = 8\<rparr>) else None)"
  by (simp add: read64_def read_bytes_def Buffer_of_def)

lemma read64_at:
  "read64 \<lparr>buf_data = body, pos = p\<rparr> =
     (if p + 8 \<le> length body
      then Some (dec_le (take 8 (drop p body)), \<lparr>buf_data = body, pos = p + 8\<rparr>) else None)"
  by (simp add: read64_def read_bytes_def)

lemma with_device_object_eq:
  "with_device_object s (Buffer_of body) k =
     (if length body < 16 then Faulted ReadPastEnd
      else
        let deviceHandle = dec_le (take 8 body);
            objectHandle = dec_le (take 8 (drop 8 body));
            dev = getDevice (resourceManager s) deviceHandle;
            serverObj = getServerObject (resourceManager s) deviceHandle objectHandle
        in if dev = nullptr \<or> so_handle serverObj = nullptr then Returned s
           else k deviceHandle objectHandle dev serverObj \<lparr>buf_data = body, pos = 16\<rparr>)"
  by (simp add: with_device_object_def reading_def read64_Buffer_of read64_at Let_def)

text \<open>
  C6. What the \<^verbatim>\<open>CommitParams\<close> branch does is fixed by the length of the body. A body of
  exactly 8 bytes is read as one handle and commits the parameters of the device it names
  (nothing happens when that handle is invalid). A body of any other length is read as
  \<^verbatim>\<open>{deviceHandle; objectHandle}\<close>: with fewer than 16 bytes the read runs past the end;
  otherwise the named object is committed when both handles are valid, and nothing happens
  when one is not.
\<close>

theorem CommitParams_by_body_length:
  "handleMessage env s Read CommitParams body False =
     (if length body = 8 then
        (let dev = getDevice (resourceManager s) (dec_le body)
         in if dev = nullptr then Returned s
            else Returned (invoke (AnariCommitParameters dev dev) s))
      else if length body < 16 then Faulted ReadPastEnd
      else
        (let deviceHandle = dec_le (take 8 body);
             objectHandle = dec_le (take 8 (drop 8 body));
             dev = getDevice (resourceManager s) deviceHandle;
             serverObj = getServerObject (resourceManager s) deviceHandle objectHandle
         in if dev = nullptr \<or> so_handle serverObj = nullptr then Returned s
            else Returned (invoke (AnariCommitParameters dev (so_handle serverObj)) s)))"
  by (simp add: handleMessage_def handle_CommitParams_def with_device_object_eq
        read64_Buffer_of reading_def Let_def)

text \<open>Bodies of 8, 16 and 12 bytes in the concrete session.\<close>

theorem CommitParams_by_body_length_witness:
  "handleMessage example_env example_server Read CommitParams (enc64 1) False
     = Returned (invoke (AnariCommitParameters 100 100) example_server)
   \<and> handleMessage example_env example_server Read CommitParams (enc64 1 @ enc64 2) False
     = Returned (invoke (AnariCommitParameters 100 187) example_server)
   \<and> handleMessage example_env example_server Read CommitParams (enc64 1 @ [2, 0, 0, 0]) False
     = Faulted ReadPastEnd"
  unfolding CommitParams_by_body_length by code_simp

subsection \<open>Frame delivery\<close>

lemma post_simps:
  "queue (post ty b s) = queue s @ [(ty, b)]"
  "calls (post ty b s) = calls s"
  "resourceManager (post ty b s) = resourceManager s"
  "client_compression (post ty b s) = client_compression s"
  "stopped (post ty b s) = stopped s"
  by (simp_all add: post_def)

lemma invoke_simps:
  "queue (invoke c s) = queue s"
  "calls (invoke c s) = calls s @ [c]"
  "resourceManager (invoke c s) = resourceManager s"
  "client_compression (invoke c s) = client_compression s"
  "stopped (invoke c s) = stopped s"
  by (simp_all add: invoke_def)

lemma length_read_mem: "length (read_mem env s p n) = n"
  by (simp add: read_mem_def)

lemma colorChannel_shape:
  assumes "codecs_fit env"
  shows "\<exists>s' c. colorChannel env oh dev frame s = Inr s'
     \<and> queue s' = queue s @ c
     \<and> calls s' = calls s @ [AnariMapFrame dev frame ''channel.color'']
     \<and> resourceManager s' = resourceManager s
     \<and> client_compression s' = client_compression s
     \<and> stopped s' = stopped s
     \<and> (c = [] \<or> (\<exists>p. c = [(ChannelColor, enc64 oh @ p)]))
     \<and> (c \<noteq> [] \<longleftrightarrow>
           ret_ptr env (calls s) (AnariMapFrame dev frame ''channel.color'') \<noteq> nullptr
           \<and> (case ret_frame env (calls s) (AnariMapFrame dev frame ''channel.color'') of
                 (w, h, ty) \<Rightarrow> channel_size env w h ty) \<noteq> 0)"
proof -
  let ?c = "AnariMapFrame dev frame ''channel.color''"
  obtain w h ty where rf: "ret_frame env (calls s) ?c = (w, h, ty)"
    by (cases "ret_frame env (calls s) ?c") auto
  let ?s1 = "invoke ?c s"
  let ?opts = "\<lparr>tj_width = w, tj_height = h, tj_pixelFormat = RGBX, tj_quality = 80\<rparr>"
  have fit: "length c \<le> unat (getMaxCompressedBufferSizeTurboJPEG env ?opts)"
    if "compressTurboJPEG env (calls ?s1) (ret_ptr env (calls s) ?c) ?opts = Some c" for c
    using assms that unfolding codecs_fit_def by blast
  show ?thesis
  proof (cases "ret_ptr env (calls s) ?c \<noteq> nullptr \<and> channel_size env w h ty \<noteq> 0")
    case False
    then have "colorChannel env oh dev frame s = Inr ?s1"
      using rf by (auto simp: colorChannel_def Let_def)
    with False rf show ?thesis by (simp add: invoke_simps)
  next
    case True
    then have "\<exists>p. colorChannel env oh dev frame s = Inr (post ChannelColor (enc64 oh @ p) ?s1)"
      using rf fit
      by (cases "compressTurboJPEG env (calls ?s1) (ret_ptr env (calls s) ?c) ?opts")
         (auto simp: colorChannel_def Let_def channel_header_def)
    then obtain p where
      "colorChannel env oh dev frame s = Inr (post ChannelColor (enc64 oh @ p) ?s1)" ..
    with True rf show ?thesis by (simp add: invoke_simps post_simps)
  qed
qed

lemma depthChannel_shape:
  assumes "codecs_fit env"
  shows "\<exists>s' c. depthChannel env oh dev frame s = Inr s'
     \<and> queue s' = queue s @ c
     \<and> calls s' = calls s @ [AnariMapFrame dev frame ''channel.depth'']
     \<and> resourceManager s' = resourceManager s
     \<and> client_compression s' = client_compression s
     \<and> stopped s' = stopped s
     \<and> (c = [] \<or> (\<exists>p. c = [(ChannelDepth, enc64 oh @ p)]))
     \<and> (c \<noteq> [] \<longleftrightarrow>
           ret_ptr env (calls s) (AnariMapFrame dev frame ''channel.depth'') \<noteq> nullptr
           \<and> (case ret_frame env (calls s) (AnariMapFrame dev frame ''channel.depth'') of
                 (w, h, ty) \<Rightarrow> channel_size env w h ty) \<noteq> 0)"
proof -
  let ?c = "AnariMapFrame dev frame ''channel.depth''"
  obtain w h ty where rf: "ret_frame env (calls s) ?c = (w, h, ty)"
    by (cases "ret_frame env (calls s) ?c") auto
  let ?s1 = "invoke ?c s"
  let ?n = "channel_size env w h ty"
  have fit: "length c \<le> unat (getMaxCompressedBufferSizeSNAPPY env ?n)"
    if "compressSNAPPY env (calls ?s1) (ret_ptr env (calls s) ?c) ?n = Some c" for c
    using assms that unfolding codecs_fit_def by blast
  show ?thesis
  proof (cases "ret_ptr env (calls s) ?c \<noteq> nullptr \<and> ?n \<noteq> 0")
    case False
    then have "depthChannel env oh dev frame s = Inr ?s1"
      using rf by (auto simp: depthChannel_def Let_def)
    with False rf show ?thesis by (simp add: invoke_simps)
  next
    case True
    then have "\<exists>p. depthChannel env oh dev frame s = Inr (post ChannelDepth (enc64 oh @ p) ?s1)"
      using rf fit
      by (cases "compressSNAPPY env (calls ?s1) (ret_ptr env (calls s) ?c) ?n")
         (auto simp: depthChannel_def Let_def channel_header_def)
    then obtain p where
      "depthChannel env oh dev frame s = Inr (post ChannelDepth (enc64 oh @ p) ?s1)" ..
    with True rf show ?thesis by (simp add: invoke_simps post_simps)
  qed
qed

text \<open>
  C1. A \<^verbatim>\<open>RenderFrame\<close> request of at least 16 bytes with a valid device handle, served with
  codecs that respect their buffers, returns after the backend calls \<^verbatim>\<open>anariRenderFrame\<close>,
  \<^verbatim>\<open>anariFrameReady\<close> and \<^verbatim>\<open>anariMapFrame\<close> for colour and then for depth. It appends to the
  outbound queue at most one \<^verbatim>\<open>ChannelColor\<close> followed by at most one \<^verbatim>\<open>ChannelDepth\<close>, each
  starting with the request's \<^verbatim>\<open>objectHandle\<close>. The \<^verbatim>\<open>ChannelColor\<close> is there exactly when the
  mapped colour pointer is non-null and its byte size is non-zero, and likewise the
  \<^verbatim>\<open>ChannelDepth\<close>.
\<close>

theorem RenderFrame_posts:
  assumes "codecs_fit env" and "16 \<le> length body"
    and "getDevice (resourceManager s) (dec_le (take 8 body)) \<noteq> nullptr"
  shows "let deviceHandle = dec_le (take 8 body);
             objectHandle = dec_le (take 8 (drop 8 body));
             dev = getDevice (resourceManager s) deviceHandle;
             frame = so_handle (getServerObject (resourceManager s) deviceHandle objectHandle);
             rendered = calls s @ [AnariRenderFrame dev frame,
                                   AnariFrameReady dev frame (anari_wait env)];
             color = AnariMapFrame dev frame ''channel.color'';
             depth = AnariMapFrame dev frame ''channel.depth''
         in \<exists>s' c d. handleMessage env s Read RenderFrame body False = Returned s'
              \<and> queue s' = queue s @ c @ d
              \<and> calls s' = rendered @ [color, depth]
              \<and> resourceManager s' = resourceManager s
              \<and> stopped s' = stopped s
              \<and> (c = [] \<or> (\<exists>p. c = [(ChannelColor, enc64 objectHandle @ p)]))
              \<and> (d = [] \<or> (\<exists>p. d = [(ChannelDepth, enc64 objectHandle @ p)]))
              \<and> (c \<noteq> [] \<longleftrightarrow> frame_channel_present env rendered dev frame ''channel.color'')
              \<and> (d \<noteq> [] \<longleftrightarrow>
                    frame_channel_present env (rendered @ [color]) dev frame ''channel.depth'')"
proof -
  let ?dh = "dec_le (take 8 body) :: Handle"
  let ?oh = "dec_le (take 8 (drop 8 body)) :: Handle"
  let ?dev = "getDevice (resourceManager s) ?dh"
  let ?frame = "so_handle (getServerObject (resourceManager s) ?dh ?oh)"
  let ?s2 = "invoke (AnariFrameReady ?dev ?frame (anari_wait env))
               (invoke (AnariRenderFrame ?dev ?frame) s)"
  have unfold: "handle_RenderFrame env s body =
      (case colorChannel env ?oh ?dev ?frame ?s2 of
         Inl e \<Rightarrow> Faulted e
       | Inr s3 \<Rightarrow> (case depthChannel env ?oh ?dev ?frame s3 of
                      Inl e \<Rightarrow> Faulted e | Inr s4 \<Rightarrow> Returned s4))"
    using assms(2,3)
    by (simp add: handle_RenderFrame_def reading_def read64_Buffer_of read64_at Let_def)
  from colorChannel_shape[OF assms(1), of ?oh ?dev ?frame ?s2] obtain s3 c where
    c: "colorChannel env ?oh ?dev ?frame ?s2 = Inr s3"
       "queue s3 = queue ?s2 @ c"
       "calls s3 = calls ?s2 @ [AnariMapFrame ?dev ?frame ''channel.color'']"
       "resourceManager s3 = resourceManager ?s2"
       "stopped s3 = stopped ?s2"
       "c = [] \<or> (\<exists>p. c = [(ChannelColor, enc64 ?oh @ p)])"
       "c \<noteq> [] \<longleftrightarrow> frame_channel_present env (calls ?s2) ?dev ?frame ''channel.color''"
    unfolding frame_channel_present_def by blast
  from depthChannel_shape[OF assms(1), of ?oh ?dev ?frame s3] obtain s4 d where
    d: "depthChannel env ?oh ?dev ?frame s3 = Inr s4"
       "queue s4 = queue s3 @ d"
       "calls s4 = calls s3 @ [AnariMapFrame ?dev ?frame ''channel.depth'']"
       "resourceManager s4 = resourceManager s3"
       "stopped s4 = stopped s3"
       "d = [] \<or> (\<exists>p. d = [(ChannelDepth, enc64 ?oh @ p)])"
       "d \<noteq> [] \<longleftrightarrow> frame_channel_present env (calls s3) ?dev ?frame ''channel.depth''"
    unfolding frame_channel_present_def by blast
  have r: "handleMessage env s Read RenderFrame body False = Returned s4"
    using unfold c(1) d(1) by (simp add: handleMessage_def)
  have q: "queue s4 = queue s @ c @ d"
    using c(2) d(2) by (simp add: invoke_simps)
  have k: "calls ?s2 = calls s @ [AnariRenderFrame ?dev ?frame,
                                   AnariFrameReady ?dev ?frame (anari_wait env)]"
    by (simp add: invoke_simps)
  have k4: "calls s4 = (calls s @ [AnariRenderFrame ?dev ?frame,
                                   AnariFrameReady ?dev ?frame (anari_wait env)])
              @ [AnariMapFrame ?dev ?frame ''channel.color'',
                 AnariMapFrame ?dev ?frame ''channel.depth'']"
    using c(3) d(3) k by simp
  have rm: "resourceManager s4 = resourceManager s" "stopped s4 = stopped s"
    using c(4,5) d(4,5) by (simp_all add: invoke_simps)
  have cp: "c \<noteq> [] \<longleftrightarrow> frame_channel_present env
      (calls s @ [AnariRenderFrame ?dev ?frame, AnariFrameReady ?dev ?frame (anari_wait env)])
      ?dev ?frame ''channel.color''"
    using c(7) k by simp
  have dp: "d \<noteq> [] \<longleftrightarrow> frame_channel_present env
      ((calls s @ [AnariRenderFrame ?dev ?frame, AnariFrameReady ?dev ?frame (anari_wait env)])
        @ [AnariMapFrame ?dev ?frame ''channel.color''])
      ?dev ?frame ''channel.depth''"
    using d(7) c(3) k by simp
  show ?thesis
    unfolding Let_def
    using r q k4 rm c(6) d(6) cp dp by blast
qed

text \<open>In the concrete session both channels are delivered compressed.\<close>

theorem RenderFrame_posts_witness:
  "codecs_fit example_env \<and> 16 \<le> length (enc64 1 @ enc64 2)
   \<and> getDevice (resourceManager example_server) (dec_le (take 8 (enc64 1 @ enc64 2))) \<noteq> nullptr
   \<and> handleMessage example_env example_server Read RenderFrame (enc64 1 @ enc64 2) False
     = Returned (example_server\<lparr>
         queue := [(ChannelColor, enc64 2 @ enc32 1 @ enc32 1 @ enc32 2003 @ enc32 3 @ [1, 2, 3]),
                   (ChannelDepth, enc64 2 @ enc32 1 @ enc32 1 @ enc32 1068 @ enc32 1 @ [9])],
         calls := [AnariRenderFrame 100 187, AnariFrameReady 100 187 1,
          AnariMapFrame 100 187 ''channel.color'', AnariMapFrame 100 187 ''channel.depth'']\<rparr>)
   \<and> (\<exists>s'. handleMessage example_env example_server Read RenderFrame (enc64 1 @ enc64 2) False
            = Returned s'
          \<and> resourceManager s' = example_rm)"
proof -
  have h1: "codecs_fit example_env"
    by (simp add: codecs_fit_def example_env_def)
  have h2: "16 \<le> length (enc64 1 @ enc64 2)"
    by (simp add: length_enc_le)
  have h3: "getDevice (resourceManager example_server) (dec_le (take 8 (enc64 1 @ enc64 2)))
      \<noteq> nullptr"
    by code_simp
  have rm: "resourceManager example_server = example_rm"
    by (simp add: example_server_def)
  have ev: "handleMessage example_env example_server Read RenderFrame (enc64 1 @ enc64 2) False
     = Returned (example_server\<lparr>
         queue := [(ChannelColor, enc64 2 @ enc32 1 @ enc32 1 @ enc32 2003 @ enc32 3 @ [1, 2, 3]),
                   (ChannelDepth, enc64 2 @ enc32 1 @ enc32 1 @ enc32 1068 @ enc32 1 @ [9])],
         calls := [AnariRenderFrame 100 187, AnariFrameReady 100 187 1,
          AnariMapFrame 100 187 ''channel.color'', AnariMapFrame 100 187 ''channel.depth'']\<rparr>)"
    by code_simp
  from RenderFrame_posts[OF h1 h2 h3] rm
  have "\<exists>s'. handleMessage example_env example_server Read RenderFrame (enc64 1 @ enc64 2) False
            = Returned s'
          \<and> resourceManager s' = example_rm"
    unfolding Let_def by metis
  with h1 h2 h3 ev show ?thesis by blast
qed

text \<open>With a backend that maps no channel, a \<^verbatim>\<open>RenderFrame\<close> with a valid device handle posts
  nothing.\<close>

theorem RenderFrame_no_color_counterexample:
  "getDevice (resourceManager example_server) 1 = 100
   \<and> handleMessage (example_env\<lparr>ret_ptr := \<lambda>tr c. nullptr\<rparr>) example_server Read RenderFrame
        (enc64 1 @ enc64 2) False
     = Returned (example_server\<lparr>queue := [], calls :=
         [AnariRenderFrame 100 187, AnariFrameReady 100 187 1,
          AnariMapFrame 100 187 ''channel.color'', AnariMapFrame 100 187 ''channel.depth'']\<rparr>)"
  by code_simp

text \<open>
  C4. Take a colour channel that is delivered (non-null pointer, non-zero byte size). The
  encoder is tried exactly when the server's and the client's lossy-image flags are both
  true and the pixel type is 8-bit sRGB RGBA, with the frame's width and height, RGBX
  byte order and quality 80. When it is tried and succeeds within a non-empty buffer, the
  bytes after the \<^verbatim>\<open>{objectHandle, width, height, pixelType}\<close> header are the \<^verbatim>\<open>uint32\<close>
  compressed byte count (the count itself when it is below \<open>2^32\<close>) followed by the
  compressed bytes. When it is not tried, they are the raw pixel bytes, as many as the
  byte size, hence not empty.
\<close>

theorem colorChannel_payload:
  assumes "ret_frame env (calls s) (AnariMapFrame dev frame ''channel.color'') = (w, h, ty)"
    and "ret_ptr env (calls s) (AnariMapFrame dev frame ''channel.color'') = color"
    and "color \<noteq> nullptr" and "channel_size env w h ty \<noteq> 0"
  shows "let s1 = invoke (AnariMapFrame dev frame ''channel.color'') s;
             header = channel_header env objectHandle w h ty;
             options = \<lparr>tj_width = w, tj_height = h, tj_pixelFormat = RGBX, tj_quality = 80\<rparr>;
             raw = read_mem env s1 color (unat (channel_size env w h ty))
         in if hasTurboJPEG (serverCompression env) \<and> hasTurboJPEG (client_compression s)
               \<and> ty = ANARI_UFIXED8_RGBA_SRGB
            then \<forall>compressed.
                   getMaxCompressedBufferSizeTurboJPEG env options \<noteq> 0
                   \<and> compressTurboJPEG env (calls s1) color options = Some compressed
                   \<and> length compressed \<le> unat (getMaxCompressedBufferSizeTurboJPEG env options)
                   \<longrightarrow> colorChannel env objectHandle dev frame s
                         = Inr (post ChannelColor
                             (header @ enc32 (of_nat (length compressed)) @ compressed) s1)
                       \<and> (length compressed < 2 ^ 32 \<longrightarrow>
                            unat (dec_le (enc32 (of_nat (length compressed))) :: 32 word)
                              = length compressed)
            else colorChannel env objectHandle dev frame s = Inr (post ChannelColor (header @ raw) s1)
                 \<and> length raw = unat (channel_size env w h ty) \<and> raw \<noteq> []"
proof -
  have nz: "unat (channel_size env w h ty) \<noteq> 0"
    using assms(4) by (simp add: unat_eq_0)
  have cnt: "unat (dec_le (enc32 (of_nat n)) :: 32 word) = n" if "n < 2 ^ 32" for n :: nat
    using that by (simp add: dec_enc32 unat_of_nat)
  show ?thesis
    using assms nz cnt
    by (auto simp: colorChannel_def Let_def invoke_simps length_read_mem
             simp flip: length_0_conv)
qed

text \<open>The concrete colour channel with the encoder at work, and with the server's lossy
  flag off.\<close>

theorem colorChannel_payload_witness:
  "ret_frame example_env (calls example_server) (AnariMapFrame 100 187 ''channel.color'')
       = (1, 1, ANARI_UFIXED8_RGBA_SRGB)
   \<and> ret_ptr example_env (calls example_server) (AnariMapFrame 100 187 ''channel.color'') = 4096
   \<and> (4096 :: ptr) \<noteq> nullptr
   \<and> channel_size example_env 1 1 ANARI_UFIXED8_RGBA_SRGB \<noteq> 0
   \<and> colorChannel example_env 2 100 187 example_server
      = Inr (post ChannelColor
          (channel_header example_env 2 1 1 ANARI_UFIXED8_RGBA_SRGB
             @ enc32 (of_nat (length [1, 2, 3 :: byte])) @ [1, 2, 3])
          (invoke (AnariMapFrame 100 187 ''channel.color'') example_server))
   \<and> colorChannel (example_env\<lparr>serverCompression := \<lparr>hasTurboJPEG = False, hasSNAPPY = True\<rparr>\<rparr>)
        2 100 187 example_server
      = Inr (post ChannelColor
          (channel_header example_env 2 1 1 ANARI_UFIXED8_RGBA_SRGB @ [7, 7, 7, 7])
          (invoke (AnariMapFrame 100 187 ''channel.color'') example_server))"
proof -
  let ?cc = "AnariMapFrame 100 187 ''channel.color''"
  let ?env2 = "example_env\<lparr>serverCompression := \<lparr>hasTurboJPEG = False, hasSNAPPY = True\<rparr>\<rparr>"
  have h1: "ret_frame example_env (calls example_server) ?cc = (1, 1, ANARI_UFIXED8_RGBA_SRGB)"
    by code_simp
  have h2: "ret_ptr example_env (calls example_server) ?cc = 4096"
    by code_simp
  have h3: "(4096 :: ptr) \<noteq> nullptr" by simp
  have h4: "channel_size example_env 1 1 ANARI_UFIXED8_RGBA_SRGB \<noteq> 0"
    by code_simp
  have g1: "hasTurboJPEG (serverCompression example_env)
      \<and> hasTurboJPEG (client_compression example_server)"
    by code_simp
  have g2: "getMaxCompressedBufferSizeTurboJPEG example_env
              \<lparr>tj_width = 1, tj_height = 1, tj_pixelFormat = RGBX, tj_quality = 80\<rparr> \<noteq> 0
      \<and> compressTurboJPEG example_env (calls (invoke ?cc example_server)) 4096
              \<lparr>tj_width = 1, tj_height = 1, tj_pixelFormat = RGBX, tj_quality = 80\<rparr>
          = Some [1, 2, 3]
      \<and> length [1, 2, 3 :: byte] \<le> unat (getMaxCompressedBufferSizeTurboJPEG example_env
              \<lparr>tj_width = 1, tj_height = 1, tj_pixelFormat = RGBX, tj_quality = 80\<rparr>)"
    by code_simp
  from colorChannel_payload[OF h1 h2 h3 h4, of 2] g1 g2
  have a: "colorChannel example_env 2 100 187 example_server
      = Inr (post ChannelColor
          (channel_header example_env 2 1 1 ANARI_UFIXED8_RGBA_SRGB
             @ enc32 (of_nat (length [1, 2, 3 :: byte])) @ [1, 2, 3])
          (invoke ?cc example_server))"
    unfolding Let_def by (simp del: length_Cons list.size)
  have h1': "ret_frame ?env2 (calls example_server) ?cc = (1, 1, ANARI_UFIXED8_RGBA_SRGB)"
    by code_simp
  have h2': "ret_ptr ?env2 (calls example_server) ?cc = 4096"
    by code_simp
  have h4': "channel_size ?env2 1 1 ANARI_UFIXED8_RGBA_SRGB \<noteq> 0"
    by code_simp
  have g1': "\<not> hasTurboJPEG (serverCompression ?env2)"
    by simp
  have raw: "read_mem ?env2 (invoke ?cc example_server) 4096
               (unat (channel_size ?env2 1 1 ANARI_UFIXED8_RGBA_SRGB)) = [7, 7, 7, 7]"
    by code_simp
  have hd: "channel_header ?env2 2 1 1 ANARI_UFIXED8_RGBA_SRGB
      = channel_header example_env 2 1 1 ANARI_UFIXED8_RGBA_SRGB"
    by (simp add: channel_header_def enc_type_def)
  from colorChannel_payload[OF h1' h2' h3 h4', of 2] g1' raw hd
  have b: "colorChannel ?env2 2 100 187 example_server
      = Inr (post ChannelColor
          (channel_header example_env 2 1 1 ANARI_UFIXED8_RGBA_SRGB @ [7, 7, 7, 7])
          (invoke ?cc example_server))"
    unfolding Let_def by simp
  from h1 h2 h3 h4 a b show ?thesis by blast
qed

text \<open>With both lossy flags on, an sRGB frame and an encoder that fails, the message is
  posted with the header alone.\<close>

theorem colorChannel_empty_payload_counterexample:
  "hasTurboJPEG (serverCompression example_env)
   \<and> hasTurboJPEG (client_compression example_server)
   \<and> ret_frame example_env [] (AnariMapFrame 100 187 ''channel.color'')
       = (1, 1, ANARI_UFIXED8_RGBA_SRGB)
   \<and> colorChannel (example_env\<lparr>compressTurboJPEG := \<lambda>tr p options. None\<rparr>) 2 100 187 example_server
     = Inr (example_server\<lparr>
         queue := [(ChannelColor, channel_header example_env 2 1 1 ANARI_UFIXED8_RGBA_SRGB)],
         calls := [AnariMapFrame 100 187 ''channel.color'']\<rparr>)"
  by code_simp

subsection \<open>Handle validation\<close>

lemma reading_dropped:
  assumes "\<And>x buf. r = Some (x, buf) \<Longrightarrow> dropped s (k x buf)"
  shows "dropped s (reading r k)"
  using assms by (cases r) (auto simp: reading_def)

lemma read64_first:
  assumes "8 \<le> length body"
  shows "reading (read64 (Buffer_of body)) k = k (dec_le (take 8 body)) \<lparr>buf_data = body, pos = 8\<rparr>"
  using assms by (simp add: reading_def read64_Buffer_of)

lemma with_device_object_dropped:
  assumes "8 \<le> length body" and "getDevice (resourceManager s) (dec_le (take 8 body)) = nullptr"
  shows "dropped s (with_device_object s (Buffer_of body) k)"
  using assms
  by (auto simp: with_device_object_def read64_first Let_def intro!: reading_dropped)

lemma with_device_object_invalid:
  assumes "16 \<le> length body"
    and "getDevice (resourceManager s) (dec_le (take 8 body)) = nullptr
       \<or> so_handle (getServerObject (resourceManager s) (dec_le (take 8 body))
            (dec_le (take 8 (drop 8 body)))) = nullptr"
  shows "with_device_object s (Buffer_of body) k = Returned s"
  using assms by (auto simp: with_device_object_eq Let_def)

lemma device_dropped:
  assumes "8 \<le> length body" and "getDevice (resourceManager s) (dec_le (take 8 body)) = nullptr"
  shows "dropped s (handle_NewObject env s body)"
    and "dropped s (handle_NewArray env s body)"
    and "dropped s (handle_SetParam env s body)"
    and "dropped s (handle_UnsetParam env s body)"
    and "dropped s (handle_UnsetAllParams env s body)"
    and "dropped s (handle_CommitParams env s body)"
    and "dropped s (handle_Release env s body)"
    and "dropped s (handle_Retain env s body)"
    and "dropped s (handle_MapArray env s body)"
    and "dropped s (handle_UnmapArray env s body)"
    and "dropped s (handle_RenderFrame env s body)"
    and "dropped s (handle_FrameReady env s body)"
    and "dropped s (handle_GetProperty env s body)"
    and "dropped s (handle_GetObjectSubtypes env s body)"
    and "dropped s (handle_GetObjectInfo env s body)"
    and "dropped s (handle_GetParameterInfo env s body)"
proof -
  note wd = with_device_object_dropped[OF assms]
  show "dropped s (handle_NewObject env s body)"
    using assms by (auto simp: handle_NewObject_def read64_first Let_def intro!: reading_dropped)
  show "dropped s (handle_NewArray env s body)"
    using assms by (auto simp: handle_NewArray_def read64_first Let_def intro!: reading_dropped)
  show "dropped s (handle_SetParam env s body)" unfolding handle_SetParam_def by (rule wd)
  show "dropped s (handle_UnsetParam env s body)" unfolding handle_UnsetParam_def by (rule wd)
  show "dropped s (handle_UnsetAllParams env s body)"
    unfolding handle_UnsetAllParams_def by (rule wd)
  show "dropped s (handle_CommitParams env s body)"
    using assms wd by (auto simp: handle_CommitParams_def read64_first Let_def)
  show "dropped s (handle_Release env s body)" unfolding handle_Release_def by (rule wd)
  show "dropped s (handle_Retain env s body)" unfolding handle_Retain_def by (rule wd)
  show "dropped s (handle_MapArray env s body)" unfolding handle_MapArray_def by (rule wd)
  show "dropped s (handle_UnmapArray env s body)" unfolding handle_UnmapArray_def by (rule wd)
  show "dropped s (handle_RenderFrame env s body)"
    using assms by (auto simp: handle_RenderFrame_def read64_first Let_def intro!: reading_dropped)
  show "dropped s (handle_FrameReady env s body)"
    using assms by (auto simp: handle_FrameReady_def read64_first Let_def intro!: reading_dropped)
  show "dropped s (handle_GetProperty env s body)"
    using assms by (auto simp: handle_GetProperty_def read64_first Let_def intro!: reading_dropped)
  show "dropped s (handle_GetObjectSubtypes env s body)"
    using assms
    by (auto simp: handle_GetObjectSubtypes_def read64_first Let_def intro!: reading_dropped)
  show "dropped s (handle_GetObjectInfo env s body)"
    using assms
    by (auto simp: handle_GetObjectInfo_def read64_first Let_def intro!: reading_dropped)
  show "dropped s (handle_GetParameterInfo env s body)"
    using assms
    by (auto simp: handle_GetParameterInfo_def read64_first Let_def intro!: reading_dropped)
qed

text \<open>
  C2. A request that starts with a device handle which \<^verbatim>\<open>getDevice\<close> does not know is
  dropped: the handler returns with the server unchanged (no response posted, no backend
  call, same tables, not stopped), unless the wire codec runs past the end of the body
  first. \<^verbatim>\<open>SetParam\<close>, \<^verbatim>\<open>UnsetParam\<close>, \<^verbatim>\<open>UnsetAllParams\<close>, \<^verbatim>\<open>CommitParams\<close>, \<^verbatim>\<open>Release\<close>,
  \<^verbatim>\<open>Retain\<close>, \<^verbatim>\<open>MapArray\<close> and \<^verbatim>\<open>UnmapArray\<close> with a body of at least 16 bytes are dropped in
  the same way when the device handle or the object handle is unknown.
\<close>

theorem invalid_handles_dropped:
  "(consumes_device_handle ty \<and> 8 \<le> length body
      \<and> getDevice (resourceManager s) (dec_le (take 8 body)) = nullptr
     \<longrightarrow> handleMessage env s Read ty body False = Returned s
         \<or> handleMessage env s Read ty body False = Faulted ReadPastEnd)
   \<and> (checks_object_handle ty \<and> 16 \<le> length body
      \<and> (getDevice (resourceManager s) (dec_le (take 8 body)) = nullptr
         \<or> so_handle (getServerObject (resourceManager s) (dec_le (take 8 body))
              (dec_le (take 8 (drop 8 body)))) = nullptr)
     \<longrightarrow> handleMessage env s Read ty body False = Returned s)"
proof (intro conjI impI)
  assume a: "consumes_device_handle ty \<and> 8 \<le> length body
      \<and> getDevice (resourceManager s) (dec_le (take 8 body)) = nullptr"
  then have l: "8 \<le> length body"
    and d: "getDevice (resourceManager s) (dec_le (take 8 body)) = nullptr" by auto
  from a have "consumes_device_handle ty" by simp
  then show "handleMessage env s Read ty body False = Returned s
         \<or> handleMessage env s Read ty body False = Faulted ReadPastEnd"
    using device_dropped[OF l d, of env]
    unfolding consumes_device_handle_def handleMessage_def
    by (elim insertE emptyE) simp_all
next
  assume a: "checks_object_handle ty \<and> 16 \<le> length body
      \<and> (getDevice (resourceManager s) (dec_le (take 8 body)) = nullptr
         \<or> so_handle (getServerObject (resourceManager s) (dec_le (take 8 body))
              (dec_le (take 8 (drop 8 body)))) = nullptr)"
  then have l: "16 \<le> length body"
    and d: "getDevice (resourceManager s) (dec_le (take 8 body)) = nullptr
         \<or> so_handle (getServerObject (resourceManager s) (dec_le (take 8 body))
              (dec_le (take 8 (drop 8 body)))) = nullptr" by auto
  note wi = with_device_object_invalid[OF l d]
  from l have l8: "length body \<noteq> 8" by simp
  from a have "checks_object_handle ty" by simp
  then show "handleMessage env s Read ty body False = Returned s"
    unfolding checks_object_handle_def handleMessage_def
    by (elim insertE emptyE)
       (simp_all add: handle_SetParam_def handle_UnsetParam_def handle_UnsetAllParams_def
          handle_CommitParams_def handle_Release_def handle_Retain_def handle_MapArray_def
          handle_UnmapArray_def wi l8)
qed

text \<open>\<^verbatim>\<open>Release\<close> with an unknown device, and with an unknown object, in the concrete
  session.\<close>

theorem invalid_handles_dropped_witness:
  "consumes_device_handle Release \<and> 8 \<le> length (enc64 7 @ enc64 2)
   \<and> getDevice (resourceManager example_server) (dec_le (take 8 (enc64 7 @ enc64 2))) = nullptr
   \<and> handleMessage example_env example_server Read Release (enc64 7 @ enc64 2) False
        = Returned example_server
   \<and> checks_object_handle Release \<and> 16 \<le> length (enc64 1 @ enc64 9)
   \<and> so_handle (getServerObject (resourceManager example_server)
         (dec_le (take 8 (enc64 1 @ enc64 9))) (dec_le (take 8 (drop 8 (enc64 1 @ enc64 9)))))
       = nullptr
   \<and> handleMessage example_env example_server Read Release (enc64 1 @ enc64 9) False
        = Returned example_server"
proof -
  have a1: "consumes_device_handle Release" by (simp add: consumes_device_handle_def)
  have a2: "8 \<le> length (enc64 7 @ enc64 2)" by (simp add: length_enc_le)
  have a3: "getDevice (resourceManager example_server) (dec_le (take 8 (enc64 7 @ enc64 2)))
      = nullptr"
    by code_simp
  have a4: "handleMessage example_env example_server Read Release (enc64 7 @ enc64 2) False
      \<noteq> Faulted ReadPastEnd"
    by code_simp
  have b1: "checks_object_handle Release" by (simp add: checks_object_handle_def)
  have b2: "16 \<le> length (enc64 1 @ enc64 9)" by (simp add: length_enc_le)
  have b3: "so_handle (getServerObject (resourceManager example_server)
         (dec_le (take 8 (enc64 1 @ enc64 9))) (dec_le (take 8 (drop 8 (enc64 1 @ enc64 9)))))
       = nullptr"
    by code_simp
  from invalid_handles_dropped[of Release "enc64 7 @ enc64 2" example_server example_env]
    a1 a2 a3 a4
  have r1: "handleMessage example_env example_server Read Release (enc64 7 @ enc64 2) False
        = Returned example_server"
    by blast
  from invalid_handles_dropped[of Release "enc64 1 @ enc64 9" example_server example_env]
    b1 b2 b3
  have r2: "handleMessage example_env example_server Read Release (enc64 1 @ enc64 9) False
        = Returned example_server"
    by blast
  from a1 a2 a3 r1 b1 b2 b3 r2 show ?thesis by blast
qed

text \<open>\<^verbatim>\<open>GetProperty\<close> with a valid device and an unknown object handle queries the device
  itself and posts a \<^verbatim>\<open>Property\<close> response.\<close>

theorem GetProperty_unknown_object_counterexample:
  "getDevice (resourceManager example_server) 1 = 100
   \<and> so_handle (getServerObject (resourceManager example_server) 1 9) = nullptr
   \<and> handleMessage example_env example_server Read GetProperty
        (enc64 1 @ enc64 9 @ enc_string ''version'' @ enc32 1004 @ enc64 4 @ enc32 1) False
     = Returned (example_server\<lparr>
         queue := [(Property, enc64 9 @ enc_string ''version'' @ enc32 1 @ [0, 0, 0, 0])],
         calls := [AnariGetProperty 100 100 ''version'' (ANARI_OTHER 1004) 4 1]\<rparr>)"
  by code_simp

subsection \<open>Exceptions\<close>








end
